theory Spec2Isabelle
  imports Main "HOL-Library.AList"
begin

section \<open>Strings\<close>

text \<open>
  Source strings are sequences of UTF-16 code units. A \<open>char\<close> stands for one code unit
  below 256; the development covers documents and names over that range.
\<close>

definition isUpperAZ :: "char \<Rightarrow> bool" where
  "isUpperAZ c = (65 \<le> (of_char c :: nat) \<and> (of_char c :: nat) \<le> 90)"

definition isLowerAZ :: "char \<Rightarrow> bool" where
  "isLowerAZ c = (97 \<le> (of_char c :: nat) \<and> (of_char c :: nat) \<le> 122)"

definition isDigit :: "char \<Rightarrow> bool" where
  "isDigit c = (48 \<le> (of_char c :: nat) \<and> (of_char c :: nat) \<le> 57)"

text \<open>\<open>String.prototype.toLowerCase\<close> on one code unit below 256: the ASCII capitals and
  the Latin-1 capitals (all of 192..222 but the multiplication sign 215) move up by 32.\<close>

definition toLowerChar :: "char \<Rightarrow> char" where
  "toLowerChar c =
     (let n = (of_char c :: nat)
      in if (65 \<le> n \<and> n \<le> 90) \<or> (192 \<le> n \<and> n \<le> 222 \<and> n \<noteq> 215)
         then char_of (n + 32) else c)"

definition toLowerCase :: "string \<Rightarrow> string" where
  "toLowerCase s = map toLowerChar s"

text \<open>A string used as a condition: \<open>undefined\<close> and the empty string are falsy.\<close>

fun truthy :: "string option \<Rightarrow> bool" where
  "truthy None = False"
| "truthy (Some s) = (s \<noteq> [])"

section \<open>Protocol types\<close>

record position =
  line :: int
  character :: int

record range =
  range_start :: position
  range_end :: position

definition Position_create :: "int \<Rightarrow> int \<Rightarrow> position" where
  "Position_create l c = \<lparr>line = l, character = c\<rparr>"

definition Range_create :: "position \<Rightarrow> position \<Rightarrow> range" where
  "Range_create s e = \<lparr>range_start = s, range_end = e\<rparr>"

record location =
  loc_uri :: string
  loc_range :: range

definition Location_create :: "string \<Rightarrow> range \<Rightarrow> location" where
  "Location_create u r = \<lparr>loc_uri = u, loc_range = r\<rparr>"

section \<open>The custom tag registry (custom-components-util.ts)\<close>

text \<open>
  Modelled from the spec: the classes \<open>AttributeInfo\<close> and \<open>TagInfo\<close> live in the package
  lightning-lsp-common. Their fields are taken in the order of the constructor arguments
  at the call sites, named as the spec's TagRecord names them; a constructor stores its
  arguments.
\<close>

record attributeInfo =
  attr_name :: string
  attr_documentation :: "string option"
  attr_type :: "string option"
  attr_location :: "location option"
  attr_detail :: "string option"

definition AttributeInfo ::
  "string \<Rightarrow> string option \<Rightarrow> string option \<Rightarrow> location option \<Rightarrow> string option \<Rightarrow> attributeInfo" where
  "AttributeInfo n d t l dt =
     \<lparr>attr_name = n, attr_documentation = d, attr_type = t, attr_location = l, attr_detail = dt\<rparr>"

record 'm tagInfo =
  isCustom :: bool
  attributes :: "attributeInfo list"
  declarationLocation :: "location option"
  documentation :: "string option"
  tagName :: "string option"
  namespace :: "string option"
  properties :: "'m list option"
  methods :: "'m list option"

definition TagInfo ::
  "bool \<Rightarrow> attributeInfo list \<Rightarrow> location option \<Rightarrow> string option \<Rightarrow> string option \<Rightarrow>
   string option \<Rightarrow> 'm list option \<Rightarrow> 'm list option \<Rightarrow> 'm tagInfo" where
  "TagInfo c as l d n ns ps ms =
     \<lparr>isCustom = c, attributes = as, declarationLocation = l, documentation = d, tagName = n,
      namespace = ns, properties = ps, methods = ms\<rparr>"

text \<open>
  \<open>LWC_TAGS\<close> is a JavaScript \<open>Map\<close>: keys are unique and iteration follows insertion
  order. It is an association list; \<open>Map.set\<close> overwrites in place or appends, \<open>Map.delete\<close>
  drops the key, \<open>Map.get\<close> looks the key up.
\<close>

type_synonym 'm registry = "(string \<times> 'm tagInfo) list"

definition Map_set :: "string \<Rightarrow> 'm tagInfo \<Rightarrow> 'm registry \<Rightarrow> 'm registry" where
  "Map_set k v m = AList.update k v m"

definition Map_delete :: "string \<Rightarrow> 'm registry \<Rightarrow> 'm registry" where
  "Map_delete k m = AList.delete k m"

definition Map_get :: "'m registry \<Rightarrow> string \<Rightarrow> 'm tagInfo option" where
  "Map_get m k = map_of m k"

definition resetCustomComponents :: "'m registry \<Rightarrow> 'm registry" where
  "resetCustomComponents m = []"

definition getLwcTags :: "'m registry \<Rightarrow> 'm registry" where
  "getLwcTags m = m"

definition getLwcByTag :: "'m registry \<Rightarrow> string \<Rightarrow> 'm tagInfo option" where
  "getLwcByTag m tag = Map_get m tag"

subsection \<open>Standard components\<close>

text \<open>The parsed \<open>lwc-standard.json\<close>: an object from bare tag names to descriptions, in
  the enumeration order of \<open>for ... in\<close>.\<close>

record standardAttribute =
  std_name :: string
  std_description :: "string option"
  std_type :: "string option"

record standardTag =
  tag_description :: "string option"
  tag_attributes :: "standardAttribute list option"

text \<open>\<open>a.name.replace(/([A-Z])/g, match => `-${match.toLowerCase()}`)\<close>\<close>

text \<open>
  \<open>loadStandardComponents\<close> below is the load that completes. The guard
  \<open>lwcStandard.hasOwnProperty(tag) && typeof tag === 'string'\<close> holds of every key that
  \<open>for ... in\<close> enumerates on a parsed object; a description with an own key named
  \<open>hasOwnProperty\<close> shadows the method, the call throws, and the load does not complete.
  Reading the resource and parsing it come before the loop and are not modelled.
\<close>

definition camelToKebab :: "string \<Rightarrow> string" where
  "camelToKebab s = concat (map (\<lambda>c. if isUpperAZ c then [CHR ''-'', toLowerChar c] else [c]) s)"

definition standardAttributeInfo :: "standardAttribute \<Rightarrow> attributeInfo" where
  "standardAttributeInfo a =
     AttributeInfo (camelToKebab (std_name a)) (std_description a) (std_type a) None
       (Some ''LWC standard attribute'')"

definition standardTagInfo :: "standardTag \<Rightarrow> 'm tagInfo" where
  "standardTagInfo d =
     (let info = TagInfo True [] None None None None None None;
          info = (case tag_attributes d of
                    None \<Rightarrow> info
                  | Some as \<Rightarrow> info\<lparr>attributes := attributes info @ map standardAttributeInfo as\<rparr>)
      in info\<lparr>documentation := tag_description d\<rparr>)"

definition loadStandardComponents :: "(string \<times> standardTag) list \<Rightarrow> 'm registry \<Rightarrow> 'm registry" where
  "loadStandardComponents lwcStandard m =
     fold (\<lambda>(tag, d) m. Map_set (''lightning-'' @ tag) (standardTagInfo d) m) lwcStandard m"

subsection \<open>Custom components\<close>

text \<open>Compiler metadata (\<open>@lwc/babel-plugin-component\<close>): the fields the registry reads,
  and the class members the compiler helpers work on.\<close>

record babelLoc =
  start_line :: int
  start_column :: int
  end_line :: int
  end_column :: int

record 'm metadata =
  doc :: "string option"
  declarationLoc :: "babelLoc option"
  classMembers :: "'m list"

record 'm compilerResult =
  result_metadata :: "'m metadata option"
  diagnostics :: "string list"

text \<open>
  What the registry imports from other modules is a parameter: the helpers of
  \<open>javascript/compiler\<close>, \<open>componentUtil.tagFromFile\<close>, and the conversion of a file path
  to a URI string. \<open>compileFile\<close> returns \<open>Inl\<close> when the promise is rejected.
\<close>

record 'm compiler =
  extractAttributes :: "'m metadata \<Rightarrow> string \<Rightarrow> attributeInfo list"
  getProperties :: "'m metadata \<Rightarrow> 'm list"
  getMethods :: "'m metadata \<Rightarrow> 'm list"
  toVSCodeRange :: "babelLoc \<Rightarrow> range"
  compileFile :: "string \<Rightarrow> string + 'm compilerResult"
  tagFromFile :: "string \<Rightarrow> bool \<Rightarrow> string option"
  fileUri :: "string \<Rightarrow> string"

text \<open>\<open>tag.split('-')[0]\<close>: the part of the tag before its first hyphen.\<close>

definition namespaceOf :: "string \<Rightarrow> string" where
  "namespaceOf tag = takeWhile (\<lambda>c. c \<noteq> CHR ''-'') tag"

definition removeCustomTag :: "string \<Rightarrow> 'm registry \<Rightarrow> 'm registry" where
  "removeCustomTag tag m = Map_delete tag m"

definition customTagInfo :: "'m compiler \<Rightarrow> string \<Rightarrow> string \<Rightarrow> 'm metadata \<Rightarrow> 'm tagInfo" where
  "customTagInfo C tag uri md =
     (let d = doc md;
          as = extractAttributes C md uri;
          r = (case declarationLoc md of
                 Some l \<Rightarrow> toVSCodeRange C l
               | None \<Rightarrow> Range_create (Position_create 0 0) (Position_create 0 0));
          loc = Location_create uri r;
          ns = namespaceOf tag
      in TagInfo True as (Some loc) d (Some tag) (Some ns)
           (Some (getProperties C md)) (Some (getMethods C md)))"

definition addCustomTag :: "'m compiler \<Rightarrow> string \<Rightarrow> string \<Rightarrow> 'm metadata \<Rightarrow> 'm registry \<Rightarrow> 'm registry" where
  "addCustomTag C tag uri md m = Map_set tag (customTagInfo C tag uri md) m"

text \<open>The registry together with the console, the sink of \<open>console.log\<close>.\<close>

datatype logEntry =
  ErrorCompilingDiagnostics string "string list"
| ErrorCompilingException string string
| ProcessedFiles nat

record 'm world =
  LWC_TAGS :: "'m registry"
  console :: "logEntry list"

definition console_log :: "logEntry \<Rightarrow> 'm world \<Rightarrow> 'm world" where
  "console_log e w = w\<lparr>console := console w @ [e]\<rparr>"

definition addCustomTagFromFile :: "'m compiler \<Rightarrow> string \<Rightarrow> bool \<Rightarrow> 'm world \<Rightarrow> 'm world" where
  "addCustomTagFromFile C file sfdxProject w =
     (case tagFromFile C file sfdxProject of
        None \<Rightarrow> w
      | Some tag \<Rightarrow>
          if tag = [] then w
          else (case compileFile C file of
                  Inl err \<Rightarrow> console_log (ErrorCompilingException file err) w
                | Inr res \<Rightarrow>
                    (let w1 = (if diagnostics res \<noteq> []
                               then console_log (ErrorCompilingDiagnostics file (diagnostics res)) w
                               else w)
                     in case result_metadata res of
                          None \<Rightarrow> w1
                        | Some md \<Rightarrow>
                            w1\<lparr>LWC_TAGS := addCustomTag C tag (fileUri C file) md (LWC_TAGS w1)\<rparr>)))"

text \<open>The elapsed time of the final log line is not modelled.\<close>

definition loadCustomTagsFromFiles :: "'m compiler \<Rightarrow> string list \<Rightarrow> bool \<Rightarrow> 'm world \<Rightarrow> 'm world" where
  "loadCustomTagsFromFiles C filePaths sfdxProject w =
     console_log (ProcessedFiles (length filePaths))
       (fold (\<lambda>file w. addCustomTagFromFile C file sfdxProject w) filePaths w)"

definition addCustomTagFromResults ::
  "'m compiler \<Rightarrow> (string \<Rightarrow> string) \<Rightarrow> string \<Rightarrow> 'm metadata \<Rightarrow> bool \<Rightarrow> 'm registry \<Rightarrow> 'm registry" where
  "addCustomTagFromResults C fsPath uri md sfdxProject m =
     (case tagFromFile C (fsPath uri) sfdxProject of
        None \<Rightarrow> m
      | Some tag \<Rightarrow> if tag = [] then m else addCustomTag C tag uri md m)"

definition removeCustomTagFromFile :: "'m compiler \<Rightarrow> string \<Rightarrow> bool \<Rightarrow> 'm registry \<Rightarrow> 'm registry" where
  "removeCustomTagFromFile C file sfdxProject m =
     (case tagFromFile C file sfdxProject of
        None \<Rightarrow> m
      | Some tag \<Rightarrow> if tag = [] then m else removeCustomTag tag m)"

section \<open>Text access\<close>

text \<open>\<open>s.charAt(i)\<close> is the empty string out of range; \<open>s[i]\<close> is \<open>undefined\<close> there.\<close>

definition charAt :: "string \<Rightarrow> int \<Rightarrow> string" where
  "charAt s i = (if 0 \<le> i \<and> i < int (length s) then [s ! nat i] else [])"

definition charIdx :: "string \<Rightarrow> int \<Rightarrow> char option" where
  "charIdx s i = (if 0 \<le> i \<and> i < int (length s) then Some (s ! nat i) else None)"

text \<open>\<open>s.substring(a, b)\<close> clamps both indices to the string and swaps them when \<open>a > b\<close>.\<close>

definition substring :: "string \<Rightarrow> int \<Rightarrow> int \<Rightarrow> string" where
  "substring s a b =
     (let n = int (length s);
          a' = max 0 (min a n);
          b' = max 0 (min b n);
          lo = min a' b';
          hi = max a' b'
      in take (nat (hi - lo)) (drop (nat lo) s))"

text \<open>The class \<open>\s\<close> below 256: tab, line feed, vertical tab, form feed, carriage return,
  space and the no-break space.\<close>

definition isWhiteSpaceChar :: "char \<Rightarrow> bool" where
  "isWhiteSpaceChar c =
     (let n = (of_char c :: nat) in (9 \<le> n \<and> n \<le> 13) \<or> n = 32 \<or> n = 160)"

text \<open>\<open>/^\s*$/.test(s)\<close>: true of the empty string. Applied to \<open>undefined\<close> it tests the
  text "undefined" and is false.\<close>

definition isWhiteSpace :: "string \<Rightarrow> bool" where
  "isWhiteSpace s = list_all isWhiteSpaceChar s"

definition isWhiteSpaceIdx :: "char option \<Rightarrow> bool" where
  "isWhiteSpaceIdx c = (case c of None \<Rightarrow> False | Some ch \<Rightarrow> isWhiteSpaceChar ch)"

section \<open>Scanner, parse tree, providers\<close>

text \<open>
  The token and state enumerations are declared in \<open>parser/htmlScanner\<close>. The completion
  code names \<open>EOS\<close>, \<open>StartTagOpen\<close>, \<open>StartTag\<close>, \<open>AttributeName\<close>, \<open>DelimiterAssign\<close>,
  \<open>AttributeValue\<close>, \<open>Whitespace\<close>, \<open>EndTagOpen\<close>, \<open>EndTag\<close>, \<open>StartTagClose\<close> and
  \<open>EndTagClose\<close>; every other token type takes the \<open>default\<close> branch of its switch.
\<close>

datatype TokenType =
  StartCommentTag | Comment | EndCommentTag
| StartTagOpen | StartTagClose | StartTagSelfClose | StartTag
| EndTagOpen | EndTagClose | EndTag
| DelimiterAssign | AttributeName | AttributeValue
| StartDoctypeTag | Doctype | EndDoctypeTag
| Content | Whitespace | Unknown | Script | Styles | EOS

datatype ScannerState =
  WithinContent | AfterOpeningStartTag | AfterOpeningEndTag | WithinDoctype
| WithinTag | WithinEndTag | WithinComment | WithinScriptContent | WithinStyleContent
| AfterAttributeName | BeforeAttributeValue

text \<open>
  One result of \<open>scanner.scan()\<close>, with what the accessors of the scanner return until the
  next call. A scanner is the list of the tokens it yields before \<open>EOS\<close>: the scanner is
  forward-only, and on the exhausted list \<open>scan()\<close> returns \<open>EOS\<close>.
\<close>

record token =
  getTokenType :: TokenType
  getTokenOffset :: int
  getTokenEnd :: int
  getTokenLength :: int
  getTokenText :: string
  getScannerState :: ScannerState

datatype node =
  Node (tag: "string option") (start: int) (closed: bool) (endTagStart: "int option")
       (parent: "node option")

record providerInfo =
  info_detail :: "string option"
  info_documentation :: "string option"

text \<open>A tag provider; each \<open>collect\<close> function is the sequence of the calls it makes to its
  collector.\<close>

record tagProvider =
  getId :: string
  isApplicable :: "string \<Rightarrow> bool"
  collectTags :: "(string \<times> providerInfo) list"
  collectAttributes :: "string \<Rightarrow> (string \<times> providerInfo \<times> string option) list"
  collectValues :: "string \<Rightarrow> string \<Rightarrow> string list"
  collectExpressionValues :: "string \<Rightarrow> string list"

record textDocument =
  uri :: string
  languageId :: string
  getText :: string
  offsetAt :: "position \<Rightarrow> int"
  positionAt :: "int \<Rightarrow> position"

text \<open>
  What \<open>htmlCompletion.ts\<close> imports from other modules: \<open>createScanner\<close> (its third
  argument is optional), \<open>isEmptyElement\<close>, the list \<open>allTagProviders\<close>, and
  \<open>componentUtil.tagFromFile(URI.parse(uri).fsPath, sfdxWorkspace)\<close> as a function of the
  document's URI.
\<close>

record engine =
  createScanner :: "string \<Rightarrow> int \<Rightarrow> ScannerState option \<Rightarrow> token list"
  isEmptyElement :: "string \<Rightarrow> bool"
  allTagProviders :: "tagProvider list"
  uriTagFromFile :: "string \<Rightarrow> bool \<Rightarrow> string option"

section \<open>Completion items\<close>

datatype CompletionItemKind = Kind_Property | Kind_Function | Kind_Value | Kind_Reference | Kind_Unit

datatype InsertTextFormat = PlainText | Snippet

record textEdit =
  edit_range :: range
  newText :: string

definition TextEdit_replace :: "range \<Rightarrow> string \<Rightarrow> textEdit" where
  "TextEdit_replace r t = \<lparr>edit_range = r, newText = t\<rparr>"

definition TextEdit_insert :: "position \<Rightarrow> string \<Rightarrow> textEdit" where
  "TextEdit_insert p t = \<lparr>edit_range = \<lparr>range_start = p, range_end = p\<rparr>, newText = t\<rparr>"

record completionItem =
  label :: string
  kind :: CompletionItemKind
  detail :: "string option"
  itemDocumentation :: "string option"
  filterText :: "string option"
  textEdit :: textEdit
  insertTextFormat :: InsertTextFormat

record completionList =
  isIncomplete :: bool
  items :: "completionItem list"

datatype error = TypeError

section \<open>Helpers of htmlCompletion.ts\<close>

text \<open>\<open>isFollowedBy\<close>: a fresh scanner at \<open>offset\<close>; skip whitespace tokens; compare the
  next token, \<open>EOS\<close> on the exhausted scanner.\<close>

definition nextTokenType :: "token list \<Rightarrow> TokenType" where
  "nextTokenType ts = (case ts of [] \<Rightarrow> EOS | t # _ \<Rightarrow> getTokenType t)"

definition isFollowedBy :: "engine \<Rightarrow> string \<Rightarrow> int \<Rightarrow> ScannerState \<Rightarrow> TokenType \<Rightarrow> bool" where
  "isFollowedBy E s off intialState expectedToken =
     (nextTokenType (dropWhile (\<lambda>t. getTokenType t = Whitespace)
        (createScanner E s off (Some intialState))) = expectedToken)"

function getWordStart :: "string \<Rightarrow> int \<Rightarrow> int \<Rightarrow> int" where
  "getWordStart s off limit =
     (if off > limit \<and> \<not> isWhiteSpaceIdx (charIdx s (off - 1))
      then getWordStart s (off - 1) limit else off)"
  by pat_completeness auto
termination
  by (relation "measure (\<lambda>(s, off, limit). nat (off - limit))") auto

function getWordEnd :: "string \<Rightarrow> int \<Rightarrow> int \<Rightarrow> int" where
  "getWordEnd s off limit =
     (if off < limit \<and> \<not> isWhiteSpaceIdx (charIdx s off)
      then getWordEnd s (off + 1) limit else off)"
  by pat_completeness auto
termination
  by (relation "measure (\<lambda>(s, off, limit). nat (limit - off))") auto

declare getWordStart.simps [simp del] getWordEnd.simps [simp del]

section \<open>doComplete\<close>

text \<open>The variables the inner functions of \<open>doComplete\<close> close over. \<open>tagProviders\<close> is the
  filtered list; \<open>settings\<close> is the optional configuration, an object from provider ids
  (and \<open>hideAutoCompleteProposals\<close>) to booleans.\<close>

record closure =
  engineOf :: engine
  document :: textDocument
  docText :: string
  offset :: int
  nodeOf :: node
  tagProviders :: "tagProvider list"
  settings :: "(string \<Rightarrow> bool option) option"
  sfdxWorkspace :: bool

definition getReplaceRange :: "closure \<Rightarrow> int \<Rightarrow> int \<Rightarrow> range" where
  "getReplaceRange K replaceStart replaceEnd =
     (let replaceStart = (if replaceStart > offset K then offset K else replaceStart)
      in \<lparr>range_start = positionAt (document K) replaceStart,
          range_end = positionAt (document K) replaceEnd\<rparr>)"

definition openTagItem :: "range \<Rightarrow> tagProvider \<Rightarrow> string \<times> providerInfo \<Rightarrow> completionItem" where
  "openTagItem r provider ti =
     \<lparr>label = fst ti, kind = Kind_Property,
      detail = (if getId provider = ''lwc'' then Some ''LWC tag'' else None),
      itemDocumentation = info_documentation (snd ti), filterText = None,
      textEdit = TextEdit_replace r (fst ti), insertTextFormat = PlainText\<rparr>"

definition collectOpenTagSuggestions ::
  "closure \<Rightarrow> completionItem list \<Rightarrow> int \<Rightarrow> int \<Rightarrow> completionItem list" where
  "collectOpenTagSuggestions K result afterOpenBracket tagNameEnd =
     (let r = getReplaceRange K afterOpenBracket tagNameEnd
      in result @ concat (map (\<lambda>provider. map (openTagItem r provider) (collectTags provider))
                            (tagProviders K)))"

text \<open>\<open>getLineIndent\<close>: the loop variable \<open>start\<close> runs down from \<open>offset\<close>; the recursion is
  on \<open>start\<close> as a natural number. \<open>"\n\r".indexOf(ch) >= 0\<close> also holds of the empty
  string that \<open>charAt\<close> returns out of range.\<close>

fun getLineIndentFrom :: "string \<Rightarrow> int \<Rightarrow> nat \<Rightarrow> string option" where
  "getLineIndentFrom s off 0 = Some (substring s 0 off)"
| "getLineIndentFrom s off (Suc k) =
     (let ch = charAt s (int k)
      in if ch = [] \<or> ch = [CHR 0x0A] \<or> ch = [CHR 0x0D] then Some (substring s (int (Suc k)) off)
         else if \<not> isWhiteSpace ch then None
         else getLineIndentFrom s off k)"

definition getLineIndent :: "string \<Rightarrow> int \<Rightarrow> string option" where
  "getLineIndent s off = getLineIndentFrom s off (nat off)"

text \<open>The walk up the ancestors in \<open>collectCloseTagSuggestions\<close>: the first node with a tag
  that is not closed, or whose end tag starts after the cursor.\<close>

fun openAncestor :: "int \<Rightarrow> node \<Rightarrow> node option" where
  "openAncestor off (Node t s c e p) =
     (if truthy t \<and> (\<not> c \<or> (case e of None \<Rightarrow> False | Some x \<Rightarrow> x > off))
      then Some (Node t s c e p)
      else (case p of None \<Rightarrow> None | Some q \<Rightarrow> openAncestor off q))"

definition closeTagOf :: "closure \<Rightarrow> int \<Rightarrow> string" where
  "closeTagOf K tagNameEnd =
     (if isFollowedBy (engineOf K) (docText K) tagNameEnd WithinEndTag EndTagClose then [] else ''>'')"

definition closeTagItem :: "closure \<Rightarrow> int \<Rightarrow> int \<Rightarrow> node \<Rightarrow> completionItem" where
  "closeTagItem K afterOpenBracket tagNameEnd cur =
     (let r = getReplaceRange K afterOpenBracket tagNameEnd;
          closeTag = closeTagOf K tagNameEnd;
          t = the (tag cur);
          item = \<lparr>label = ''/'' @ t, kind = Kind_Property, detail = None, itemDocumentation = None,
                  filterText = Some (''/'' @ t @ closeTag),
                  textEdit = TextEdit_replace r (''/'' @ t @ closeTag),
                  insertTextFormat = PlainText\<rparr>
      in case (getLineIndent (docText K) (start cur),
               getLineIndent (docText K) (afterOpenBracket - 1)) of
           (Some startIndent, Some endIndent) \<Rightarrow>
             if startIndent \<noteq> endIndent
             then item\<lparr>textEdit :=
                         TextEdit_replace
                           (getReplaceRange K (afterOpenBracket - 1 - int (length endIndent)) (offset K))
                           (startIndent @ ''</'' @ t @ closeTag),
                       filterText := Some (endIndent @ ''</'' @ t @ closeTag)\<rparr>
             else item
         | _ \<Rightarrow> item)"

definition providerCloseTagItem :: "range \<Rightarrow> string \<Rightarrow> string \<times> providerInfo \<Rightarrow> completionItem" where
  "providerCloseTagItem r closeTag ti =
     \<lparr>label = ''/'' @ fst ti, kind = Kind_Property, detail = None,
      itemDocumentation = info_documentation (snd ti),
      filterText = Some (''/'' @ fst ti @ closeTag),
      textEdit = TextEdit_replace r (''/'' @ fst ti @ closeTag),
      insertTextFormat = PlainText\<rparr>"

definition collectCloseTagSuggestions ::
  "closure \<Rightarrow> completionItem list \<Rightarrow> int \<Rightarrow> bool \<Rightarrow> int \<Rightarrow> completionItem list" where
  "collectCloseTagSuggestions K result afterOpenBracket inOpenTag tagNameEnd =
     (let r = getReplaceRange K afterOpenBracket tagNameEnd;
          closeTag = closeTagOf K tagNameEnd;
          cur = (if inOpenTag then parent (nodeOf K) else Some (nodeOf K))
      in case (case cur of None \<Rightarrow> None | Some n \<Rightarrow> openAncestor (offset K) n) of
           Some c \<Rightarrow> result @ [closeTagItem K afterOpenBracket tagNameEnd c]
         | None \<Rightarrow>
             if inOpenTag then result
             else result @ concat (map (\<lambda>provider. map (providerCloseTagItem r closeTag)
                                         (collectTags provider)) (tagProviders K)))"

definition hideAutoCompleteProposals :: "closure \<Rightarrow> bool" where
  "hideAutoCompleteProposals K =
     (case settings K of None \<Rightarrow> False | Some st \<Rightarrow> st ''hideAutoCompleteProposals'' = Some True)"

definition autoCloseItem :: "closure \<Rightarrow> int \<Rightarrow> string \<Rightarrow> completionItem" where
  "autoCloseItem K tagCloseEnd t =
     \<lparr>label = ''</'' @ t @ ''>'', kind = Kind_Property, detail = None, itemDocumentation = None,
      filterText = Some (''</'' @ t @ ''>''),
      textEdit = TextEdit_insert (positionAt (document K) tagCloseEnd) (''$0</'' @ t @ ''>''),
      insertTextFormat = Snippet\<rparr>"

definition collectAutoCloseTagSuggestion ::
  "closure \<Rightarrow> completionItem list \<Rightarrow> int \<Rightarrow> string \<Rightarrow> completionItem list" where
  "collectAutoCloseTagSuggestion K result tagCloseEnd t =
     (if hideAutoCompleteProposals K then result
      else if \<not> isEmptyElement (engineOf K) t then result @ [autoCloseItem K tagCloseEnd t]
      else result)"

definition collectTagSuggestions ::
  "closure \<Rightarrow> completionItem list \<Rightarrow> int \<Rightarrow> int \<Rightarrow> completionItem list" where
  "collectTagSuggestions K result tagStart tagEnd =
     collectCloseTagSuggestions K (collectOpenTagSuggestions K result tagStart tagEnd)
       tagStart True tagEnd"

function attributeReplaceEnd :: "string \<Rightarrow> int \<Rightarrow> int \<Rightarrow> int" where
  "attributeReplaceEnd s nameEnd replaceEnd =
     (if replaceEnd < nameEnd \<and> charIdx s replaceEnd \<noteq> Some CHR ''<''
      then attributeReplaceEnd s nameEnd (replaceEnd + 1) else replaceEnd)"
  by pat_completeness auto
termination
  by (relation "measure (\<lambda>(s, nameEnd, replaceEnd). nat (nameEnd - replaceEnd))") auto

declare attributeReplaceEnd.simps [simp del]

definition attributeNameItem ::
  "range \<Rightarrow> string \<Rightarrow> string \<times> providerInfo \<times> string option \<Rightarrow> completionItem" where
  "attributeNameItem r val a =
     (case a of (attribute, info, ty) \<Rightarrow>
        \<lparr>label = attribute, kind = (if ty = Some ''handler'' then Kind_Function else Kind_Value),
         detail = info_detail info, itemDocumentation = info_documentation info,
         filterText = None,
         textEdit = TextEdit_replace r
                      (if ty \<noteq> Some ''v'' \<and> val \<noteq> [] then attribute @ val else attribute),
         insertTextFormat = Snippet\<rparr>)"

definition collectAttributeNameSuggestions ::
  "closure \<Rightarrow> completionItem list \<Rightarrow> string \<Rightarrow> int \<Rightarrow> int \<Rightarrow> completionItem list" where
  "collectAttributeNameSuggestions K result currentTag nameStart nameEnd =
     (let replaceEnd = attributeReplaceEnd (docText K) nameEnd (offset K);
          r = getReplaceRange K nameStart replaceEnd;
          val = (if isFollowedBy (engineOf K) (docText K) nameEnd AfterAttributeName DelimiterAssign
                 then [] else ''=$1'');
          t = toLowerCase currentTag
      in result @ concat (map (\<lambda>provider. map (attributeNameItem r val) (collectAttributes provider t))
                            (tagProviders K)))"

text \<open>The backward loop of \<open>collectExpressionSuggestions\<close> from \<open>offset - 1\<close> down to
  \<open>valueStart\<close>. \<open>templateTag\<close> does not depend on the loop variable.\<close>

definition expressionItem :: "closure \<Rightarrow> range \<Rightarrow> string \<Rightarrow> completionItem" where
  "expressionItem K r v =
     \<lparr>label = v, kind = Kind_Reference, detail = None, itemDocumentation = None, filterText = None,
      textEdit = TextEdit_replace r
                   (v @ (if charIdx (docText K) (offset K) = Some CHR ''}'' then [] else ''}'')),
      insertTextFormat = PlainText\<rparr>"

function expressionLoop ::
  "closure \<Rightarrow> completionItem list \<Rightarrow> int \<Rightarrow> int \<Rightarrow> bool \<times> completionItem list" where
  "expressionLoop K result valueStart i =
     (let templateTag = uriTagFromFile (engineOf K) (uri (document K)) (sfdxWorkspace K)
      in if i \<ge> valueStart
         then (if charIdx (docText K) i = Some CHR ''{'' \<and> truthy templateTag
               then (let r = getReplaceRange K (i + 1) (offset K)
                     in (True, result @ concat (map (\<lambda>provider. map (expressionItem K r)
                                   (collectExpressionValues provider (the templateTag)))
                                   (tagProviders K))))
               else expressionLoop K result valueStart (i - 1))
         else (False, result))"
  by pat_completeness auto
termination
  by (relation "measure (\<lambda>(K, result, valueStart, i). nat (i - valueStart + 1))") auto

declare expressionLoop.simps [simp del]

definition collectExpressionSuggestions ::
  "closure \<Rightarrow> completionItem list \<Rightarrow> int \<Rightarrow> bool \<times> completionItem list" where
  "collectExpressionSuggestions K result valueStart =
     (if valueStart \<ge> 0 \<and> offset K < int (length (docText K)) \<and>
         (charIdx (docText K) (offset K) = Some CHR ''}'' \<or>
          charIdx (docText K) (offset K) = Some CHR ''>'')
      then expressionLoop K result valueStart (offset K - 1)
      else (False, result))"

definition valueItem :: "range \<Rightarrow> bool \<Rightarrow> string \<Rightarrow> completionItem" where
  "valueItem r addQuotes v =
     (let insertText = (if addQuotes then [CHR 0x22] @ v @ [CHR 0x22] else v)
      in \<lparr>label = v, kind = Kind_Unit, detail = None, itemDocumentation = None,
          filterText = Some insertText, textEdit = TextEdit_replace r insertText,
          insertTextFormat = PlainText\<rparr>)"

text \<open>\<open>currentAttributeName\<close> is declared without a value; \<open>toLowerCase\<close> on \<open>undefined\<close>
  throws a TypeError.\<close>

definition collectAttributeValueSuggestions ::
  "closure \<Rightarrow> completionItem list \<Rightarrow> string \<Rightarrow> string option \<Rightarrow> int \<Rightarrow> int \<Rightarrow>
   error + completionItem list" where
  "collectAttributeValueSuggestions K result currentTag currentAttributeName valueStart valueEnd =
     (case collectExpressionSuggestions K result valueStart of
        (True, result') \<Rightarrow> Inr result'
      | (False, result') \<Rightarrow>
          (let s = docText K;
               (r, addQuotes) =
                 (if offset K > valueStart \<and> offset K \<le> valueEnd \<and>
                     charIdx s valueStart = Some (CHR 0x22)
                  then (let valueEnd = (if valueEnd > offset K \<and> charIdx s (valueEnd - 1) = Some (CHR 0x22)
                                        then valueEnd - 1 else valueEnd);
                            wsBefore = getWordStart s (offset K) (valueStart + 1);
                            wsAfter = getWordEnd s (offset K) valueEnd
                        in (getReplaceRange K wsBefore wsAfter, False))
                  else (getReplaceRange K valueStart valueEnd, True));
               t = toLowerCase currentTag
           in case currentAttributeName of
                None \<Rightarrow> Inl TypeError
              | Some an \<Rightarrow>
                  Inr (result' @ concat (map (\<lambda>provider. map (valueItem r addQuotes)
                                               (collectValues provider t (toLowerCase an)))
                                          (tagProviders K)))))"

text \<open>\<open>scanNextForEndPos\<close> at the current token \<open>cur\<close>, with \<open>rest\<close> the tokens the scanner
  still holds. Every caller returns right after it, so the advanced scanner is not read
  again.\<close>

definition scanNextForEndPos :: "closure \<Rightarrow> TokenType \<Rightarrow> token \<Rightarrow> token list \<Rightarrow> int" where
  "scanNextForEndPos K nextToken cur rest =
     (if offset K = getTokenEnd cur
      then (case rest of
              [] \<Rightarrow> offset K
            | n # _ \<Rightarrow>
                if getTokenType n = nextToken \<and> getTokenOffset n = offset K then getTokenEnd n
                else offset K)
      else offset K)"

text \<open>The backward loop of the \<open>EndTag\<close> case, from \<open>getTokenOffset() - 1\<close> down to 0: the
  position of the slash, when only whitespace lies between it and the tag name.\<close>

fun endTagSlashFrom :: "string \<Rightarrow> nat \<Rightarrow> int option" where
  "endTagSlashFrom s 0 = None"
| "endTagSlashFrom s (Suc k) =
     (let ch = charAt s (int k)
      in if ch = ''/'' then Some (int k)
         else if \<not> isWhiteSpace ch then None
         else endTagSlashFrom s k)"

text \<open>One round of the \<open>while\<close> loop: the \<open>switch\<close> on the token either returns from
  \<open>doComplete\<close> or goes on with \<open>currentTag\<close> and \<open>currentAttributeName\<close>.\<close>

datatype step = Return "error + completionItem list" | Continue string "string option"

definition onToken :: "closure \<Rightarrow> string \<Rightarrow> string option \<Rightarrow> token \<Rightarrow> token list \<Rightarrow> step" where
  "onToken K currentTag currentAttributeName t rest =
     (case getTokenType t of
        StartTagOpen \<Rightarrow>
          if getTokenEnd t = offset K
          then Return (Inr (collectTagSuggestions K [] (offset K) (scanNextForEndPos K StartTag t rest)))
          else Continue currentTag currentAttributeName
      | StartTag \<Rightarrow>
          if getTokenOffset t \<le> offset K \<and> offset K \<le> getTokenEnd t
          then Return (Inr (collectOpenTagSuggestions K [] (getTokenOffset t) (getTokenEnd t)))
          else Continue (getTokenText t) currentAttributeName
      | AttributeName \<Rightarrow>
          if getTokenOffset t \<le> offset K \<and> offset K \<le> getTokenEnd t
          then Return (Inr (collectAttributeNameSuggestions K [] currentTag
                              (getTokenOffset t) (getTokenEnd t)))
          else Continue currentTag (Some (getTokenText t))
      | DelimiterAssign \<Rightarrow>
          if getTokenEnd t = offset K
          then Return (collectAttributeValueSuggestions K [] currentTag currentAttributeName
                         (getTokenEnd t) (offset K))
          else Continue currentTag currentAttributeName
      | AttributeValue \<Rightarrow>
          if getTokenOffset t \<le> offset K \<and> offset K \<le> getTokenEnd t
          then Return (collectAttributeValueSuggestions K [] currentTag currentAttributeName
                         (getTokenOffset t) (getTokenEnd t))
          else Continue currentTag currentAttributeName
      | Whitespace \<Rightarrow>
          if offset K \<le> getTokenEnd t
          then (case getScannerState t of
                  AfterOpeningStartTag \<Rightarrow>
                    Return (Inr (collectTagSuggestions K [] (getTokenOffset t)
                                   (scanNextForEndPos K StartTag t rest)))
                | WithinTag \<Rightarrow>
                    Return (Inr (collectAttributeNameSuggestions K [] currentTag
                                   (getTokenEnd t) (offset K)))
                | AfterAttributeName \<Rightarrow>
                    Return (Inr (collectAttributeNameSuggestions K [] currentTag
                                   (getTokenEnd t) (offset K)))
                | BeforeAttributeValue \<Rightarrow>
                    Return (collectAttributeValueSuggestions K [] currentTag currentAttributeName
                              (getTokenEnd t) (offset K))
                | AfterOpeningEndTag \<Rightarrow>
                    Return (Inr (collectCloseTagSuggestions K [] (getTokenOffset t - 1) False (offset K)))
                | _ \<Rightarrow> Continue currentTag currentAttributeName)
          else Continue currentTag currentAttributeName
      | EndTagOpen \<Rightarrow>
          if offset K \<le> getTokenEnd t
          then Return (Inr (collectCloseTagSuggestions K [] (getTokenOffset t + 1) False
                              (scanNextForEndPos K EndTag t rest)))
          else Continue currentTag currentAttributeName
      | EndTag \<Rightarrow>
          if offset K \<le> getTokenEnd t
          then (case endTagSlashFrom (docText K) (nat (getTokenOffset t)) of
                  Some st \<Rightarrow> Return (Inr (collectCloseTagSuggestions K [] st False (getTokenEnd t)))
                | None \<Rightarrow> Continue currentTag currentAttributeName)
          else Continue currentTag currentAttributeName
      | StartTagClose \<Rightarrow>
          if offset K \<le> getTokenEnd t \<and> currentTag \<noteq> []
          then Return (Inr (collectAutoCloseTagSuggestion K [] (getTokenEnd t) currentTag))
          else Continue currentTag currentAttributeName
      | _ \<Rightarrow>
          (case collectExpressionSuggestions K [] (getTokenLength t) of
             (True, result') \<Rightarrow> Return (Inr result')
           | (False, result') \<Rightarrow>
               if offset K \<le> getTokenEnd t then Return (Inr result')
               else Continue currentTag currentAttributeName))"

fun scanTokens :: "closure \<Rightarrow> string \<Rightarrow> string option \<Rightarrow> token list \<Rightarrow> error + completionItem list" where
  "scanTokens K currentTag currentAttributeName [] = Inr []"
| "scanTokens K currentTag currentAttributeName (t # rest) =
     (if getTokenType t = EOS \<or> \<not> getTokenOffset t \<le> offset K then Inr []
      else (case onToken K currentTag currentAttributeName t rest of
              Return r \<Rightarrow> r
            | Continue currentTag' currentAttributeName' \<Rightarrow>
                scanTokens K currentTag' currentAttributeName' rest))"

definition enabledProviders :: "engine \<Rightarrow> textDocument \<Rightarrow> (string \<Rightarrow> bool option) option \<Rightarrow> tagProvider list" where
  "enabledProviders E d st =
     filter (\<lambda>p. isApplicable p (languageId d) \<and>
                 (case st of None \<Rightarrow> True | Some cfg \<Rightarrow> cfg (getId p) \<noteq> Some False))
       (allTagProviders E)"

definition closureOf ::
  "engine \<Rightarrow> textDocument \<Rightarrow> position \<Rightarrow> node \<Rightarrow> bool \<Rightarrow> (string \<Rightarrow> bool option) option \<Rightarrow> closure" where
  "closureOf E d pos n sfdx st =
     \<lparr>engineOf = E, document = d, docText = getText d, offset = offsetAt d pos, nodeOf = n,
      tagProviders = enabledProviders E d st, settings = st, sfdxWorkspace = sfdx\<rparr>"

definition doComplete ::
  "engine \<Rightarrow> textDocument \<Rightarrow> position \<Rightarrow> (int \<Rightarrow> node option) \<Rightarrow> bool \<Rightarrow>
   (string \<Rightarrow> bool option) option \<Rightarrow> error + completionList" where
  "doComplete E d pos findNodeBefore sfdx st =
     (case findNodeBefore (offsetAt d pos) of
        None \<Rightarrow> Inr \<lparr>isIncomplete = False, items = []\<rparr>
      | Some n \<Rightarrow>
          (case scanTokens (closureOf E d pos n sfdx st) [] None
                  (createScanner E (getText d) (start n) None) of
             Inl e \<Rightarrow> Inl e
           | Inr its \<Rightarrow> Inr \<lparr>isIncomplete = False, items = its\<rparr>))"

section \<open>doTagComplete\<close>

text \<open>Both loops of \<open>doTagComplete\<close>: scan while the token is not \<open>EOS\<close> and ends at or
  before the offset; succeed on a token of the wanted type that ends at the offset.\<close>

fun tokenEndsAt :: "TokenType \<Rightarrow> int \<Rightarrow> token list \<Rightarrow> bool" where
  "tokenEndsAt ty off [] = False"
| "tokenEndsAt ty off (t # rest) =
     (if getTokenType t = EOS \<or> \<not> getTokenEnd t \<le> off then False
      else if getTokenType t = ty \<and> getTokenEnd t = off then True
      else tokenEndsAt ty off rest)"

fun firstUnclosed :: "node \<Rightarrow> node option" where
  "firstUnclosed (Node t s c e p) =
     (if c then (case p of None \<Rightarrow> None | Some q \<Rightarrow> firstUnclosed q)
      else Some (Node t s c e p))"

definition doTagComplete ::
  "engine \<Rightarrow> textDocument \<Rightarrow> position \<Rightarrow> (int \<Rightarrow> node option) \<Rightarrow> string option" where
  "doTagComplete E d pos findNodeBefore =
     (let off = offsetAt d pos
      in if off \<le> 0 then None
         else (let ch = charAt (getText d) (off - 1)
               in if ch = ''>''
                  then (case findNodeBefore off of
                          None \<Rightarrow> None
                        | Some n \<Rightarrow>
                            if truthy (tag n) \<and> \<not> isEmptyElement E (the (tag n)) \<and> start n < off \<and>
                               (case endTagStart n of None \<Rightarrow> True | Some e \<Rightarrow> e = 0 \<or> e > off)
                            then (if tokenEndsAt StartTagClose off
                                       (createScanner E (getText d) (start n) None)
                                  then Some (''$0</'' @ the (tag n) @ ''>'') else None)
                            else None)
                  else if ch = ''/''
                  then (case (case findNodeBefore off of None \<Rightarrow> None | Some n \<Rightarrow> firstUnclosed n) of
                          None \<Rightarrow> None
                        | Some n \<Rightarrow>
                            if truthy (tag n)
                            then (if tokenEndsAt EndTagOpen off
                                       (createScanner E (getText d) (start n) None)
                                  then Some (the (tag n) @ ''>'') else None)
                            else None)
                  else None))"

section \<open>Notions the properties are stated with\<close>

text \<open>Kebab-case: words of lower-case ASCII letters and digits, joined by single hyphens;
  no hyphen at either end. \<open>kebabRun\<close> reads the string with the flag "a word character
  came just before".\<close>

fun kebabRun :: "bool \<Rightarrow> string \<Rightarrow> bool" where
  "kebabRun inWord [] = inWord"
| "kebabRun inWord (c # cs) =
     (if isLowerAZ c \<or> isDigit c then kebabRun True cs
      else if c = CHR ''-'' \<and> inWord then kebabRun False cs
      else False)"

definition isKebabCase :: "string \<Rightarrow> bool" where
  "isKebabCase s = kebabRun False s"

text \<open>Camel-case: ASCII letters and digits, the first a lower-case letter.\<close>

definition isCamelCase :: "string \<Rightarrow> bool" where
  "isCamelCase s =
     (case s of
        [] \<Rightarrow> False
      | c # cs \<Rightarrow> isLowerAZ c \<and> list_all (\<lambda>x. isLowerAZ x \<or> isUpperAZ x \<or> isDigit x) cs)"

text \<open>The value of \<open>currentTag\<close> once the loop of \<open>doComplete\<close> has gone past the tokens
  \<open>pre\<close>: the text of the last \<open>StartTag\<close> token among them.\<close>

definition currentTagAfter :: "string \<Rightarrow> token list \<Rightarrow> string" where
  "currentTagAfter currentTag pre =
     fold (\<lambda>t ct. if getTokenType t = StartTag then getTokenText t else ct) pre currentTag"

text \<open>The token types that reach the \<open>default\<close> branch of the switch in \<open>doComplete\<close>.\<close>

definition isDefaultToken :: "TokenType \<Rightarrow> bool" where
  "isDefaultToken ty =
     (ty \<notin> set [StartTagOpen, StartTag, AttributeName, DelimiterAssign, AttributeValue,
                 Whitespace, EndTagOpen, EndTag, StartTagClose])"

section \<open>Example inputs\<close>

text \<open>A text document whose only line terminator is the line feed:
  \<open>positionAt\<close> clamps the offset to the text and counts the line feeds before it;
  \<open>offsetAt\<close> clamps the position to its line.\<close>

fun offsetOfLine :: "string \<Rightarrow> nat \<Rightarrow> nat option" where
  "offsetOfLine s 0 = Some 0"
| "offsetOfLine [] (Suc n) = None"
| "offsetOfLine (c # cs) (Suc n) =
     map_option Suc (if c = CHR 0x0A then offsetOfLine cs n else offsetOfLine cs (Suc n))"

definition textPositionAt :: "string \<Rightarrow> int \<Rightarrow> position" where
  "textPositionAt s off =
     (let before = take (nat (max 0 (min off (int (length s))))) s
      in \<lparr>line = int (length (filter (\<lambda>c. c = CHR 0x0A) before)),
          character = int (length (takeWhile (\<lambda>c. c \<noteq> CHR 0x0A) (rev before)))\<rparr>)"

definition textOffsetAt :: "string \<Rightarrow> position \<Rightarrow> int" where
  "textOffsetAt s p =
     (if line p < 0 then 0
      else (case offsetOfLine s (nat (line p)) of
              None \<Rightarrow> int (length s)
            | Some ls \<Rightarrow>
                (let next = (case offsetOfLine s (Suc (nat (line p))) of
                               None \<Rightarrow> int (length s) | Some x \<Rightarrow> int x)
                 in max (int ls) (min (int ls + character p) next))))"

definition TextDocument_create :: "string \<Rightarrow> string \<Rightarrow> string \<Rightarrow> textDocument" where
  "TextDocument_create u lang s =
     \<lparr>uri = u, languageId = lang, getText = s, offsetAt = textOffsetAt s,
      positionAt = textPositionAt s\<rparr>"

definition mkToken :: "TokenType \<Rightarrow> int \<Rightarrow> int \<Rightarrow> string \<Rightarrow> ScannerState \<Rightarrow> token" where
  "mkToken ty a b s st =
     \<lparr>getTokenType = ty, getTokenOffset = a, getTokenEnd = b, getTokenLength = b - a,
      getTokenText = s, getScannerState = st\<rparr>"

text \<open>The tokens of five small documents, as the markup scanner yields them from offset 0,
  and the tokens that follow an attribute name or a tag name when the scanner is started
  there.\<close>

definition fooTokens :: "token list" where
  "fooTokens =
     [mkToken StartTagOpen 0 1 ''<'' AfterOpeningStartTag,
      mkToken StartTag 1 6 ''c-foo'' WithinTag,
      mkToken Whitespace 6 7 '' '' WithinTag,
      mkToken StartTagClose 7 8 ''>'' WithinContent,
      mkToken EndTagOpen 8 10 ''</'' AfterOpeningEndTag,
      mkToken EndTag 10 15 ''c-foo'' WithinEndTag,
      mkToken EndTagClose 15 16 ''>'' WithinContent]"

definition fooLaTokens :: "token list" where
  "fooLaTokens =
     [mkToken StartTagOpen 0 1 ''<'' AfterOpeningStartTag,
      mkToken StartTag 1 6 ''c-foo'' WithinTag,
      mkToken Whitespace 6 7 '' '' WithinTag,
      mkToken AttributeName 7 9 ''la'' AfterAttributeName,
      mkToken StartTagClose 9 10 ''>'' WithinContent,
      mkToken EndTagOpen 10 12 ''</'' AfterOpeningEndTag,
      mkToken EndTag 12 17 ''c-foo'' WithinEndTag,
      mkToken EndTagClose 17 18 ''>'' WithinContent]"

definition brTokens :: "token list" where
  "brTokens =
     [mkToken StartTagOpen 0 1 ''<'' AfterOpeningStartTag,
      mkToken StartTag 1 3 ''br'' WithinTag,
      mkToken StartTagClose 3 4 ''>'' WithinContent]"

definition braceTokens :: "token list" where
  "braceTokens =
     [mkToken StartTagOpen 0 1 ''<'' AfterOpeningStartTag,
      mkToken StartTag 1 2 ''a'' WithinTag,
      mkToken Whitespace 2 3 '' '' WithinTag,
      mkToken Unknown 3 4 ''='' WithinTag,
      mkToken AttributeName 4 7 ''{b}'' AfterAttributeName,
      mkToken StartTagClose 7 8 ''>'' WithinContent]"

definition braceCloseTokens :: "token list" where
  "braceCloseTokens = braceTokens @ [mkToken Content 8 9 ''}'' WithinContent]"

definition exampleScanner :: "string \<Rightarrow> int \<Rightarrow> ScannerState option \<Rightarrow> token list" where
  "exampleScanner s off st =
     (if s = ''<c-foo ></c-foo>'' \<and> off = 0 \<and> st = None then fooTokens
      else if s = ''<c-foo ></c-foo>'' \<and> off = 7 \<and> st = Some AfterAttributeName then drop 3 fooTokens
      else if s = ''<c-foo la></c-foo>'' \<and> off = 0 \<and> st = None then fooLaTokens
      else if s = ''<c-foo la></c-foo>'' \<and> off = 9 \<and> st = Some AfterAttributeName then drop 4 fooLaTokens
      else if s = ''<br>'' \<and> off = 0 \<and> st = None then brTokens
      else if s = ''<a ={b}>'' \<and> off = 0 \<and> st = None then braceTokens
      else if s = ''<a ={b}>'' \<and> off = 7 \<and> st = Some AfterAttributeName then drop 5 braceTokens
      else if s = ''<a ={b}>}'' \<and> off = 0 \<and> st = None then braceCloseTokens
      else [])"

text \<open>
  Modelled from the spec: the custom-component provider of \<open>tagProviders\<close>, "backed by
  the registry": its tags are the registered tags, the attributes of
  a tag are those of its record, and the expression values of a tag are what its record
  lists as properties and methods.
\<close>

definition attributeDescription :: "attributeInfo \<Rightarrow> providerInfo" where
  "attributeDescription a =
     \<lparr>info_detail = attr_detail a, info_documentation = attr_documentation a\<rparr>"

definition lwcTagProvider :: "string registry \<Rightarrow> tagProvider" where
  "lwcTagProvider m =
     \<lparr>getId = ''lwc'',
      isApplicable = (\<lambda>languageId. languageId = ''html''),
      collectTags = map (\<lambda>(t, info). (t, \<lparr>info_detail = None,
                                            info_documentation = documentation info\<rparr>)) m,
      collectAttributes = (\<lambda>t. case getLwcByTag m t of
                                  None \<Rightarrow> []
                                | Some info \<Rightarrow> map (\<lambda>a. (attr_name a, attributeDescription a, attr_type a))
                                                (attributes info)),
      collectValues = (\<lambda>t a. []),
      collectExpressionValues = (\<lambda>t. case getLwcByTag m t of
                                        None \<Rightarrow> []
                                      | Some info \<Rightarrow> (case properties info of None \<Rightarrow> [] | Some ps \<Rightarrow> ps) @
                                                     (case methods info of None \<Rightarrow> [] | Some ms \<Rightarrow> ms))\<rparr>"

text \<open>A compiler whose class members are names: the component \<open>foo.js\<close> has the public
  property \<open>label\<close> and the method \<open>handleClick\<close>; \<open>bad.js\<close> does not compile;
  \<open>gone.js\<close> yields neither metadata nor diagnostics.\<close>

definition exampleMetadata :: "string metadata" where
  "exampleMetadata = \<lparr>doc = Some ''Foo'', declarationLoc = None, classMembers = [''label'', ''handleClick'']\<rparr>"

definition exampleCompiler :: "string compiler" where
  "exampleCompiler =
     \<lparr>extractAttributes = (\<lambda>md u. [AttributeInfo ''label'' None None None (Some ''LWC custom attribute'')]),
      getProperties = (\<lambda>md. take 1 (classMembers md)),
      getMethods = (\<lambda>md. drop 1 (classMembers md)),
      toVSCodeRange = (\<lambda>l. Range_create (Position_create (start_line l - 1) (start_column l))
                                        (Position_create (end_line l - 1) (end_column l))),
      compileFile = (\<lambda>f. if f = ''bad.js'' then Inl ''SyntaxError''
                          else if f = ''gone.js'' then Inr \<lparr>result_metadata = None, diagnostics = []\<rparr>
                          else Inr \<lparr>result_metadata = Some exampleMetadata, diagnostics = []\<rparr>),
      tagFromFile = (\<lambda>f sfdx. Some (''c-'' @ takeWhile (\<lambda>c. c \<noteq> CHR ''.'') f)),
      fileUri = (\<lambda>f. ''file:///'' @ f)\<rparr>"

definition emptyWorld :: "string world" where
  "emptyWorld = \<lparr>LWC_TAGS = [], console = []\<rparr>"

definition exampleRegistry :: "string registry" where
  "exampleRegistry = LWC_TAGS (addCustomTagFromFile exampleCompiler ''foo.js'' True emptyWorld)"

definition exampleEngine :: engine where
  "exampleEngine =
     \<lparr>createScanner = exampleScanner,
      isEmptyElement = (\<lambda>e. toLowerCase e \<in> set [''area'', ''base'', ''br'', ''col'', ''embed'', ''hr'',
                             ''img'', ''input'', ''keygen'', ''link'', ''menuitem'', ''meta'', ''param'',
                             ''source'', ''track'', ''wbr'']),
      allTagProviders = [lwcTagProvider exampleRegistry],
      uriTagFromFile = (\<lambda>u sfdx. Some ''c-foo'')\<rparr>"

definition exampleDocument :: "string \<Rightarrow> textDocument" where
  "exampleDocument s = TextDocument_create ''file:///foo.html'' ''html'' s"

definition exampleNode :: node where
  "exampleNode = Node (Some ''c-foo'') 0 True (Some 8) None"

section \<open>The registry: lookups after writes\<close>

lemma Map_get_set: "Map_get (Map_set k v m) k' = (if k' = k then Some v else Map_get m k')"
  by (simp add: Map_get_def Map_set_def update_conv')

lemma Map_get_delete: "Map_get (Map_delete k m) k' = (if k' = k then None else Map_get m k')"
  by (simp add: Map_get_def Map_delete_def delete_conv')

text \<open>
  C2. Whatever the registry holds: after a record is stored under a tag (by \<open>Map.set\<close>, which
  is all \<open>addCustomTag\<close> does with the record it builds), \<open>getLwcByTag\<close> returns that
  record; a second store under the same tag wins; after \<open>removeCustomTag\<close> the lookup
  returns nothing.
\<close>

theorem registry_round_trip:
  "getLwcByTag (Map_set t R m) t = Some R \<and>
   getLwcByTag (addCustomTag C t u md m) t = Some (customTagInfo C t u md) \<and>
   getLwcByTag (Map_set t R' (Map_set t R m)) t = Some R' \<and>
   getLwcByTag (removeCustomTag t m) t = None \<and>
   getLwcByTag (removeCustomTag t (Map_set t R m)) t = None"
  by (simp add: getLwcByTag_def addCustomTag_def removeCustomTag_def Map_get_set Map_get_delete)

lemma customTagInfo_location:
  "declarationLocation (customTagInfo C t u md) =
     Some (Location_create u
        (case declarationLoc md of
           Some l \<Rightarrow> toVSCodeRange C l
         | None \<Rightarrow> Range_create (Position_create 0 0) (Position_create 0 0)))"
  by (simp add: customTagInfo_def TagInfo_def Let_def)

lemma addCustomTagFromFile_registry:
  "LWC_TAGS (addCustomTagFromFile C file sfdx w) =
     (case tagFromFile C file sfdx of
        None \<Rightarrow> LWC_TAGS w
      | Some t \<Rightarrow>
          if t = [] then LWC_TAGS w
          else (case compileFile C file of
                  Inl err \<Rightarrow> LWC_TAGS w
                | Inr res \<Rightarrow>
                    (case result_metadata res of
                       None \<Rightarrow> LWC_TAGS w
                     | Some md \<Rightarrow> addCustomTag C t (fileUri C file) md (LWC_TAGS w))))"
  by (simp add: addCustomTagFromFile_def console_log_def Let_def split: option.splits sum.splits)

text \<open>
  C10. The record that \<open>addCustomTag\<close> stores always carries a declaration location. When
  the metadata has no \<open>declarationLoc\<close>, the location is the range from (0, 0) to (0, 0)
  at the given URI. Through \<open>addCustomTagFromFile\<close>, a tag either keeps the entry it had
  or gets a record with a location.
\<close>

theorem stored_location_never_absent:
  "getLwcByTag (addCustomTag C t u md m) t = Some (customTagInfo C t u md) \<and>
   declarationLocation (customTagInfo C t u md) \<noteq> None \<and>
   declarationLocation (customTagInfo C t u (md\<lparr>declarationLoc := None\<rparr>)) =
     Some \<lparr>loc_uri = u,
           loc_range = \<lparr>range_start = \<lparr>line = 0, character = 0\<rparr>,
                        range_end = \<lparr>line = 0, character = 0\<rparr>\<rparr>\<rparr> \<and>
   (getLwcByTag (LWC_TAGS (addCustomTagFromFile C file sfdx w)) t = getLwcByTag (LWC_TAGS w) t \<or>
    (\<exists>r. getLwcByTag (LWC_TAGS (addCustomTagFromFile C file sfdx w)) t = Some r \<and>
         declarationLocation r \<noteq> None))"
proof -
  have stored: "getLwcByTag (addCustomTag C t u md m) t = Some (customTagInfo C t u md)"
    for u md and m :: "'a registry"
    by (simp add: getLwcByTag_def addCustomTag_def Map_get_set)
  have other: "t' \<noteq> t \<Longrightarrow> getLwcByTag (addCustomTag C t' u md m) t = getLwcByTag m t"
    for t' u md and m :: "'a registry"
    by (simp add: getLwcByTag_def addCustomTag_def Map_get_set)
  have present: "declarationLocation (customTagInfo C t u md) \<noteq> None" for u md
    by (simp add: customTagInfo_location)
  have zero: "declarationLocation (customTagInfo C t u (md\<lparr>declarationLoc := None\<rparr>)) =
     Some \<lparr>loc_uri = u,
           loc_range = \<lparr>range_start = \<lparr>line = 0, character = 0\<rparr>,
                        range_end = \<lparr>line = 0, character = 0\<rparr>\<rparr>\<rparr>"
    by (simp add: customTagInfo_location Location_create_def Range_create_def Position_create_def)
  have step: "getLwcByTag (addCustomTag C t' u md m) t = getLwcByTag m t \<or>
      (\<exists>r. getLwcByTag (addCustomTag C t' u md m) t = Some r \<and> declarationLocation r \<noteq> None)"
    for t' u md and m :: "'a registry"
    using stored [of u md m] present [of u md] other [of t' u md m] by (cases "t' = t") auto
  have viaFile: "getLwcByTag (LWC_TAGS (addCustomTagFromFile C file sfdx w)) t = getLwcByTag (LWC_TAGS w) t \<or>
    (\<exists>r. getLwcByTag (LWC_TAGS (addCustomTagFromFile C file sfdx w)) t = Some r \<and>
         declarationLocation r \<noteq> None)"
    unfolding addCustomTagFromFile_registry
    using step by (simp split: option.splits sum.splits)
  show ?thesis using stored present zero viaFile by blast
qed

section \<open>Standard components\<close>

lemma toLowerChar_upper: "isUpperAZ c \<Longrightarrow> isLowerAZ (toLowerChar c)"
  by (simp add: isUpperAZ_def isLowerAZ_def toLowerChar_def Let_def)

lemma lower_not_upper: "isLowerAZ c \<Longrightarrow> \<not> isUpperAZ c"
  by (simp add: isUpperAZ_def isLowerAZ_def)

lemma camelToKebab_Cons:
  "camelToKebab (c # cs) =
     (if isUpperAZ c then CHR ''-'' # toLowerChar c # camelToKebab cs else c # camelToKebab cs)"
  by (simp add: camelToKebab_def)

lemma camelToKebab_Nil: "camelToKebab [] = []"
  by (simp add: camelToKebab_def)

lemma kebabRun_camelToKebab:
  "list_all (\<lambda>x. isLowerAZ x \<or> isUpperAZ x \<or> isDigit x) cs \<Longrightarrow> kebabRun True (camelToKebab cs)"
proof (induction cs)
  case Nil
  then show ?case by (simp add: camelToKebab_Nil)
next
  case (Cons c cs)
  then have rest: "kebabRun True (camelToKebab cs)" by simp
  show ?case
  proof (cases "isUpperAZ c")
    case True
    then show ?thesis
      using rest toLowerChar_upper [OF True] by (simp add: camelToKebab_Cons isLowerAZ_def isDigit_def)
  next
    case False
    with Cons.prems have "isLowerAZ c \<or> isDigit c" by simp
    then show ?thesis using rest False by (simp add: camelToKebab_Cons)
  qed
qed

lemma camel_to_kebab:
  assumes "isCamelCase s"
  shows "isKebabCase (camelToKebab s)"
proof (cases s)
  case Nil
  with assms show ?thesis by (simp add: isCamelCase_def)
next
  case (Cons c cs)
  with assms have c: "isLowerAZ c"
    and cs: "list_all (\<lambda>x. isLowerAZ x \<or> isUpperAZ x \<or> isDigit x) cs"
    by (simp_all add: isCamelCase_def)
  show ?thesis
    using c lower_not_upper [OF c] kebabRun_camelToKebab [OF cs]
    by (simp add: Cons isKebabCase_def camelToKebab_Cons)
qed

lemma camelToKebab_no_upper: "c \<in> set (camelToKebab s) \<Longrightarrow> \<not> isUpperAZ c"
proof (induction s)
  case Nil
  then show ?case by (simp add: camelToKebab_Nil)
next
  case (Cons a s)
  then show ?case
    using toLowerChar_upper [of a] lower_not_upper [of "toLowerChar a"]
    by (auto simp: camelToKebab_Cons isUpperAZ_def split: if_splits)
qed

lemma fold_prefixed_other:
  "t \<notin> fst ` set xs \<Longrightarrow>
   Map_get (fold (\<lambda>(tag, d) m. Map_set (p @ tag) (f d) m) xs m) (p @ t) = Map_get m (p @ t)"
  by (induction xs arbitrary: m) (auto simp: Map_get_set split: prod.splits)

lemma fold_prefixed_get:
  "distinct (map fst xs) \<Longrightarrow> (t, d) \<in> set xs \<Longrightarrow>
   Map_get (fold (\<lambda>(tag, d) m. Map_set (p @ tag) (f d) m) xs m) (p @ t) = Some (f d)"
proof (induction xs arbitrary: m)
  case Nil
  then show ?case by simp
next
  case (Cons x xs)
  show ?case
  proof (cases "(t, d) = x")
    case True
    with Cons.prems have "t \<notin> fst ` set xs" by force
    then have other: "Map_get (fold (\<lambda>(tag, d) m. Map_set (p @ tag) (f d) m) xs m') (p @ t) =
        Map_get m' (p @ t)" for m'
      by (rule fold_prefixed_other)
    show ?thesis
      by (simp add: True [symmetric] other Map_get_set)
  next
    case False
    with Cons.prems have "(t, d) \<in> set xs" "distinct (map fst xs)" by auto
    from Cons.IH [OF this(2) this(1)] show ?thesis
      by simp
  qed
qed

lemma loadStandardComponents_get:
  "distinct (map fst xs) \<Longrightarrow> (t, d) \<in> set xs \<Longrightarrow>
   getLwcByTag (loadStandardComponents xs m) (''lightning-'' @ t) = Some (standardTagInfo d)"
  unfolding loadStandardComponents_def getLwcByTag_def by (rule fold_prefixed_get)

lemma standardTagInfo_attributes:
  "attributes (standardTagInfo d :: 'm tagInfo) =
     (case tag_attributes d of None \<Rightarrow> [] | Some as \<Rightarrow> map standardAttributeInfo as)"
  by (simp add: standardTagInfo_def TagInfo_def Let_def split: option.splits)

lemma standardAttributeInfo_name: "attr_name (standardAttributeInfo a) = camelToKebab (std_name a)"
  by (simp add: standardAttributeInfo_def AttributeInfo_def)

text \<open>
  C5, as the claim states it, fails: a name that starts with a capital is stored with a
  leading hyphen, which is not kebab-case.
\<close>

theorem capitalised_name_not_kebab:
  "camelToKebab ''IconName'' = ''-icon-name'' \<and> \<not> isKebabCase (camelToKebab ''IconName'')"
  by code_simp

text \<open>
  C5, amended. After \<open>loadStandardComponents\<close> on a description with distinct tag names,
  every described tag is registered under \<open>lightning-\<close> followed by its name, with one
  attribute per described attribute; the stored name is the source name with every ASCII
  capital replaced by a hyphen and its lower-case letter, so it holds no ASCII capital;
  and it is kebab-case whenever the source name is camel-case.
\<close>

theorem standard_attributes_kebab:
  assumes "distinct (map fst lwcStandard)" and "(t, d) \<in> set lwcStandard"
  shows "\<exists>info. getLwcByTag (loadStandardComponents lwcStandard m) (''lightning-'' @ t) = Some info \<and>
           map attr_name (attributes info) =
             map (\<lambda>a. camelToKebab (std_name a)) (case tag_attributes d of None \<Rightarrow> [] | Some as \<Rightarrow> as) \<and>
           (\<forall>a \<in> set (attributes info). \<forall>c \<in> set (attr_name a). \<not> isUpperAZ c) \<and>
           (\<forall>src \<in> set (case tag_attributes d of None \<Rightarrow> [] | Some as \<Rightarrow> as).
              isCamelCase (std_name src) \<longrightarrow> isKebabCase (camelToKebab (std_name src)))"
proof -
  let ?info = "standardTagInfo d :: 'a tagInfo"
  have get: "getLwcByTag (loadStandardComponents lwcStandard m) (''lightning-'' @ t) = Some ?info"
    using assms by (rule loadStandardComponents_get)
  have names: "map attr_name (attributes ?info) =
      map (\<lambda>a. camelToKebab (std_name a)) (case tag_attributes d of None \<Rightarrow> [] | Some as \<Rightarrow> as)"
    by (simp add: standardTagInfo_attributes standardAttributeInfo_name comp_def split: option.splits)
  have lower: "\<forall>a \<in> set (attributes ?info). \<forall>c \<in> set (attr_name a). \<not> isUpperAZ c"
    by (auto simp: standardTagInfo_attributes standardAttributeInfo_name
          dest: camelToKebab_no_upper split: option.splits)
  have kebab: "\<forall>src \<in> set (case tag_attributes d of None \<Rightarrow> [] | Some as \<Rightarrow> as).
      isCamelCase (std_name src) \<longrightarrow> isKebabCase (camelToKebab (std_name src))"
    by (simp add: camel_to_kebab)
  from get names lower kebab show ?thesis by blast
qed

theorem standard_attributes_kebab_witness:
  "\<exists>info. getLwcByTag (loadStandardComponents
             [(''button'', \<lparr>tag_description = Some ''A button'',
                           tag_attributes = Some [\<lparr>std_name = ''iconName'', std_description = None,
                                                   std_type = None\<rparr>]\<rparr>)]
             exampleRegistry) ''lightning-button'' = Some info \<and>
          map attr_name (attributes info) = [''icon-name''] \<and>
          isCamelCase ''iconName'' \<and> isKebabCase ''icon-name''"
proof -
  let ?a = "\<lparr>std_name = ''iconName'', std_description = None, std_type = None\<rparr>"
  let ?d = "\<lparr>tag_description = Some ''A button'', tag_attributes = Some [?a]\<rparr>"
  have k: "camelToKebab ''iconName'' = ''icon-name''" by code_simp
  have c: "isCamelCase ''iconName''" by code_simp
  from standard_attributes_kebab [of "[(''button'', ?d)]" "''button''" ?d exampleRegistry]
  show ?thesis using k c by auto
qed

section \<open>Scanning the workspace\<close>

lemma addCustomTagFromFile_console:
  "console (addCustomTagFromFile C file sfdx w) =
     console w @
     (case tagFromFile C file sfdx of
        None \<Rightarrow> []
      | Some t \<Rightarrow>
          if t = [] then []
          else (case compileFile C file of
                  Inl err \<Rightarrow> [ErrorCompilingException file err]
                | Inr res \<Rightarrow>
                    if diagnostics res \<noteq> [] then [ErrorCompilingDiagnostics file (diagnostics res)]
                    else []))"
  by (simp add: addCustomTagFromFile_def console_log_def Let_def split: option.splits sum.splits)

lemma scan_registry_cong:
  "LWC_TAGS w = LWC_TAGS w' \<Longrightarrow>
   LWC_TAGS (fold (\<lambda>file w. addCustomTagFromFile C file sfdx w) files w) =
   LWC_TAGS (fold (\<lambda>file w. addCustomTagFromFile C file sfdx w) files w')"
proof (induction files arbitrary: w w')
  case Nil
  then show ?case by simp
next
  case (Cons f files)
  have "LWC_TAGS (addCustomTagFromFile C f sfdx w) = LWC_TAGS (addCustomTagFromFile C f sfdx w')"
    using Cons.prems by (simp add: addCustomTagFromFile_registry split: option.splits sum.splits)
  from Cons.IH [OF this] show ?case by simp
qed

lemma scan_console_grows:
  "set (console w) \<subseteq> set (console (fold (\<lambda>file w. addCustomTagFromFile C file sfdx w) files w))"
proof (induction files arbitrary: w)
  case Nil
  then show ?case by simp
next
  case (Cons f files)
  have "set (console w) \<subseteq> set (console (addCustomTagFromFile C f sfdx w))"
    by (simp add: addCustomTagFromFile_console)
  with Cons.IH [of "addCustomTagFromFile C f sfdx w"] show ?case by auto
qed

lemma loadCustomTagsFromFiles_registry:
  "LWC_TAGS (loadCustomTagsFromFiles C files sfdx w) =
   LWC_TAGS (fold (\<lambda>file w. addCustomTagFromFile C file sfdx w) files w)"
  by (simp add: loadCustomTagsFromFiles_def console_log_def)

lemma loadCustomTagsFromFiles_console:
  "set (console (fold (\<lambda>file w. addCustomTagFromFile C file sfdx w) files w)) \<subseteq>
   set (console (loadCustomTagsFromFiles C files sfdx w))"
  by (auto simp: loadCustomTagsFromFiles_def console_log_def)

text \<open>
  C4, as the claim states it, fails in its reporting part: when the compiler returns no
  metadata and no diagnostics, \<open>addCustomTagFromFile\<close> writes nothing to the console.
\<close>

theorem absent_metadata_not_reported:
  "truthy (tagFromFile exampleCompiler ''gone.js'' True) \<and>
   compileFile exampleCompiler ''gone.js'' = Inr \<lparr>result_metadata = None, diagnostics = []\<rparr> \<and>
   console (addCustomTagFromFile exampleCompiler ''gone.js'' True emptyWorld) = console emptyWorld \<and>
   console (addCustomTagFromFile exampleCompiler ''gone.js'' True emptyWorld) = []"
  by (simp add: addCustomTagFromFile_console exampleCompiler_def emptyWorld_def)

text \<open>
  C4, amended. For a file with a tag whose compilation throws or returns no metadata:
  the whole registry is left as it was; a thrown error is written to the console; when
  the compiler returns, the console gets the diagnostics if there are any and nothing
  otherwise; and the scan goes on: the registry after scanning a list that holds the
  file is the registry after scanning the list without it, and the thrown error is in
  the console at the end of the scan.
\<close>

theorem failed_compile_skips_file:
  assumes tagged: "truthy (tagFromFile C file sfdx)"
    and failed: "compileFile C file = Inl err \<or>
                 (compileFile C file = Inr res \<and> result_metadata res = None)"
  shows "LWC_TAGS (addCustomTagFromFile C file sfdx w) = LWC_TAGS w \<and>
         (compileFile C file = Inl err \<longrightarrow>
            console (addCustomTagFromFile C file sfdx w) =
              console w @ [ErrorCompilingException file err]) \<and>
         (compileFile C file = Inr res \<longrightarrow>
            console (addCustomTagFromFile C file sfdx w) =
              console w @ (if diagnostics res \<noteq> []
                           then [ErrorCompilingDiagnostics file (diagnostics res)] else [])) \<and>
         LWC_TAGS (loadCustomTagsFromFiles C (before @ file # after) sfdx w) =
           LWC_TAGS (loadCustomTagsFromFiles C (before @ after) sfdx w) \<and>
         (compileFile C file = Inl err \<longrightarrow>
            ErrorCompilingException file err
              \<in> set (console (loadCustomTagsFromFiles C (before @ file # after) sfdx w)))"
proof -
  obtain t where t: "tagFromFile C file sfdx = Some t" "t \<noteq> []"
    using tagged by (cases "tagFromFile C file sfdx") auto
  have same: "LWC_TAGS (addCustomTagFromFile C file sfdx w') = LWC_TAGS w'" for w'
    using failed t by (auto simp: addCustomTagFromFile_registry)
  have thrown: "compileFile C file = Inl err \<longrightarrow>
      console (addCustomTagFromFile C file sfdx w') = console w' @ [ErrorCompilingException file err]" for w'
    using t by (simp add: addCustomTagFromFile_console)
  have returned: "compileFile C file = Inr res \<longrightarrow>
      console (addCustomTagFromFile C file sfdx w) =
        console w @ (if diagnostics res \<noteq> []
                     then [ErrorCompilingDiagnostics file (diagnostics res)] else [])"
    using t by (simp add: addCustomTagFromFile_console)
  let ?scan = "\<lambda>files w. fold (\<lambda>file w. addCustomTagFromFile C file sfdx w) files w"
  have goesOn: "LWC_TAGS (?scan (before @ file # after) w) = LWC_TAGS (?scan (before @ after) w)"
    using scan_registry_cong [OF same [of "?scan before w"], of C sfdx after] by simp
  have logged: "compileFile C file = Inl err \<longrightarrow>
      ErrorCompilingException file err \<in> set (console (loadCustomTagsFromFiles C (before @ file # after) sfdx w))"
  proof
    assume "compileFile C file = Inl err"
    with thrown [of "?scan before w"]
    have "ErrorCompilingException file err \<in> set (console (addCustomTagFromFile C file sfdx (?scan before w)))"
      by simp
    with scan_console_grows [of "addCustomTagFromFile C file sfdx (?scan before w)" C sfdx after]
    have "ErrorCompilingException file err \<in> set (console (?scan (before @ file # after) w))"
      by auto
    with loadCustomTagsFromFiles_console [of C sfdx "before @ file # after" w]
    show "ErrorCompilingException file err \<in> set (console (loadCustomTagsFromFiles C (before @ file # after) sfdx w))"
      by blast
  qed
  show ?thesis
    using same [of w] thrown [of w] returned goesOn logged
    by (simp add: loadCustomTagsFromFiles_registry)
qed

theorem failed_compile_skips_file_witness:
  "truthy (tagFromFile exampleCompiler ''bad.js'' True) \<and>
   compileFile exampleCompiler ''bad.js'' = Inl ''SyntaxError'' \<and>
   LWC_TAGS (addCustomTagFromFile exampleCompiler ''bad.js'' True emptyWorld) = [] \<and>
   console (addCustomTagFromFile exampleCompiler ''bad.js'' True emptyWorld) =
     [ErrorCompilingException ''bad.js'' ''SyntaxError''] \<and>
   LWC_TAGS (loadCustomTagsFromFiles exampleCompiler [''bad.js'', ''foo.js''] True emptyWorld) =
     LWC_TAGS (loadCustomTagsFromFiles exampleCompiler [''foo.js''] True emptyWorld) \<and>
   ErrorCompilingException ''bad.js'' ''SyntaxError''
     \<in> set (console (loadCustomTagsFromFiles exampleCompiler [''bad.js'', ''foo.js''] True emptyWorld))"
proof -
  have tagged: "truthy (tagFromFile exampleCompiler ''bad.js'' True)"
    by (simp add: exampleCompiler_def)
  have thrown: "compileFile exampleCompiler ''bad.js'' = Inl ''SyntaxError''"
    by (simp add: exampleCompiler_def)
  from failed_compile_skips_file [OF tagged disjI1 [OF thrown],
      where w = emptyWorld and before = "[]" and after = "[''foo.js'']"]
  show ?thesis using tagged thrown by (simp add: emptyWorld_def)
qed

section \<open>No node, no trigger character\<close>

text \<open>
  C8. When \<open>findNodeBefore\<close> yields no node at the offset of the position, \<open>doComplete\<close>
  returns the empty list with \<open>isIncomplete\<close> false, and not an error.
\<close>

theorem missing_node_empty_list:
  assumes "findNodeBefore (offsetAt d pos) = None"
  shows "doComplete E d pos findNodeBefore sfdx st = Inr \<lparr>isIncomplete = False, items = []\<rparr>"
  using assms by (simp add: doComplete_def)

theorem missing_node_empty_list_witness:
  "doComplete exampleEngine (exampleDocument ''<c-foo ></c-foo>'') \<lparr>line = 0, character = 7\<rparr>
     (\<lambda>off. None) True None = Inr \<lparr>isIncomplete = False, items = []\<rparr>"
  by (rule missing_node_empty_list) simp

text \<open>
  C9. \<open>doTagComplete\<close> returns nothing when the offset is 0 or less, and when the character
  before the offset is neither \<open>>\<close> nor \<open>/\<close>, whatever the parse tree and the scanner are.
\<close>

theorem no_trigger_character:
  assumes "offsetAt d pos \<le> 0 \<or>
           (charAt (getText d) (offsetAt d pos - 1) \<noteq> ''>'' \<and>
            charAt (getText d) (offsetAt d pos - 1) \<noteq> ''/'')"
  shows "doTagComplete E d pos findNodeBefore = None"
  using assms by (auto simp: doTagComplete_def Let_def)

theorem no_trigger_character_witness:
  "offsetAt (exampleDocument ''<c-foo ></c-foo>'') \<lparr>line = 0, character = 7\<rparr> = 7 \<and>
   charAt ''<c-foo ></c-foo>'' 6 = '' '' \<and>
   doTagComplete exampleEngine (exampleDocument ''<c-foo ></c-foo>'') \<lparr>line = 0, character = 7\<rparr>
     (\<lambda>off. Some exampleNode) = None \<and>
   doTagComplete exampleEngine (exampleDocument ''<c-foo ></c-foo>'') \<lparr>line = 0, character = 0\<rparr>
     (\<lambda>off. Some exampleNode) = None"
proof -
  let ?d = "exampleDocument ''<c-foo ></c-foo>''"
  have off: "offsetAt ?d \<lparr>line = 0, character = 7\<rparr> = 7"
    by (simp add: exampleDocument_def TextDocument_create_def textOffsetAt_def)
  have off0: "offsetAt ?d \<lparr>line = 0, character = 0\<rparr> = 0"
    by (simp add: exampleDocument_def TextDocument_create_def textOffsetAt_def)
  have tx: "getText ?d = ''<c-foo ></c-foo>''"
    by (simp add: exampleDocument_def TextDocument_create_def)
  have ch: "charAt ''<c-foo ></c-foo>'' 6 = '' ''"
    by (simp add: charAt_def)
  have a: "doTagComplete exampleEngine ?d \<lparr>line = 0, character = 7\<rparr> (\<lambda>off. Some exampleNode) = None"
    by (rule no_trigger_character) (simp add: off tx ch)
  have b: "doTagComplete exampleEngine ?d \<lparr>line = 0, character = 0\<rparr> (\<lambda>off. Some exampleNode) = None"
    by (rule no_trigger_character) (simp add: off0)
  from off ch a b show ?thesis by simp
qed

section \<open>The token loop of doComplete\<close>

lemma expressionLoop_result:
  "expressionLoop K result vs i = (b, r) \<Longrightarrow>
   (if b then \<exists>j tt. r = result @ concat (map (\<lambda>provider. map (expressionItem K (getReplaceRange K (j + 1) (offset K)))
                                  (collectExpressionValues provider tt)) (tagProviders K))
    else r = result)"
proof (induction K result vs i rule: expressionLoop.induct)
  case (1 K result valueStart i)
  show ?case
  proof (cases "i \<ge> valueStart")
    case False
    with "1.prems" show ?thesis
      by (subst (asm) expressionLoop.simps) (simp add: Let_def)
  next
    case True
    show ?thesis
    proof (cases "charIdx (docText K) i = Some CHR ''{'' \<and>
                  truthy (uriTagFromFile (engineOf K) (uri (document K)) (sfdxWorkspace K))")
      case found: True
      with True "1.prems" have "b" and
        "r = result @ concat (map (\<lambda>provider. map (expressionItem K (getReplaceRange K (i + 1) (offset K)))
               (collectExpressionValues provider
                  (the (uriTagFromFile (engineOf K) (uri (document K)) (sfdxWorkspace K)))))
               (tagProviders K))"
        by (subst (asm) expressionLoop.simps, simp add: Let_def)+
      then show ?thesis by auto
    next
      case notFound: False
      with True "1.prems" have "expressionLoop K result valueStart (i - 1) = (b, r)"
        by (subst (asm) expressionLoop.simps) (simp add: Let_def)
      with "1.IH" [OF refl True notFound] show ?thesis by simp
    qed
  qed
qed

lemma collectExpressionSuggestions_true:
  assumes "collectExpressionSuggestions K [] vs = (True, r)"
  shows "\<forall>it \<in> set r. kind it = Kind_Reference \<and> insertTextFormat it = PlainText"
proof -
  from assms have "expressionLoop K [] vs (offset K - 1) = (True, r)"
    by (simp add: collectExpressionSuggestions_def split: if_splits)
  from expressionLoop_result [OF this] show ?thesis
    by (auto simp: expressionItem_def)
qed

lemma collectExpressionSuggestions_false:
  assumes "collectExpressionSuggestions K result vs = (False, r)"
  shows "r = result"
proof (cases "vs \<ge> 0 \<and> offset K < int (length (docText K)) \<and>
         (charIdx (docText K) (offset K) = Some CHR ''}'' \<or>
          charIdx (docText K) (offset K) = Some CHR ''>'')")
  case True
  with assms have "expressionLoop K result vs (offset K - 1) = (False, r)"
    by (simp add: collectExpressionSuggestions_def)
  from expressionLoop_result [OF this] show ?thesis by simp
next
  case False
  with assms show ?thesis by (auto simp: collectExpressionSuggestions_def)
qed

text \<open>A token that ends before the cursor never matches one of the nine named cases; it
  only updates \<open>currentTag\<close> and \<open>currentAttributeName\<close>, unless it is of another type and
  the expression detection of the \<open>default\<close> branch succeeds.\<close>

lemma onToken_past:
  assumes "getTokenEnd p < offset K"
  shows "onToken K ct ca p rest =
           Continue (if getTokenType p = StartTag then getTokenText p else ct)
                    (if getTokenType p = AttributeName then Some (getTokenText p) else ca) \<or>
         (isDefaultToken (getTokenType p) \<and>
          (\<exists>r. collectExpressionSuggestions K [] (getTokenLength p) = (True, r) \<and>
               onToken K ct ca p rest = Return (Inr r)))"
proof (cases "isDefaultToken (getTokenType p)")
  case False
  with assms show ?thesis
    by (auto simp: onToken_def isDefaultToken_def)
next
  case True
  obtain b r where e: "collectExpressionSuggestions K [] (getTokenLength p) = (b, r)"
    by (cases "collectExpressionSuggestions K [] (getTokenLength p)")
  from True have ty: "getTokenType p \<noteq> StartTag" "getTokenType p \<noteq> AttributeName"
    by (auto simp: isDefaultToken_def)
  from True assms e have "onToken K ct ca p rest = (if b then Return (Inr r) else Continue ct ca)"
    by (cases "getTokenType p") (simp_all add: onToken_def isDefaultToken_def)
  with True e ty show ?thesis by (cases b) auto
qed

lemma currentTagAfter_Cons:
  "currentTagAfter ct (p # pre) =
     currentTagAfter (if getTokenType p = StartTag then getTokenText p else ct) pre"
  by (simp add: currentTagAfter_def)

lemma scanTokens_past:
  assumes "\<forall>p \<in> set pre. getTokenType p \<noteq> EOS \<and> getTokenOffset p \<le> offset K \<and> getTokenEnd p < offset K"
  shows "(\<exists>ca'. scanTokens K ct ca (pre @ rest) = scanTokens K (currentTagAfter ct pre) ca' rest) \<or>
         (\<exists>p \<in> set pre. \<exists>r. isDefaultToken (getTokenType p) \<and>
              collectExpressionSuggestions K [] (getTokenLength p) = (True, r) \<and>
              scanTokens K ct ca (pre @ rest) = Inr r)"
  using assms
proof (induction pre arbitrary: ct ca)
  case Nil
  then show ?case by (auto simp: currentTagAfter_def)
next
  case (Cons p pre)
  then have p: "getTokenType p \<noteq> EOS" "getTokenOffset p \<le> offset K" "getTokenEnd p < offset K"
    and pre: "\<forall>q \<in> set pre. getTokenType q \<noteq> EOS \<and> getTokenOffset q \<le> offset K \<and> getTokenEnd q < offset K"
    by auto
  let ?ct = "if getTokenType p = StartTag then getTokenText p else ct"
  let ?ca = "if getTokenType p = AttributeName then Some (getTokenText p) else ca"
  from onToken_past [OF p(3), of ct ca "pre @ rest"]
  consider (go) "onToken K ct ca p (pre @ rest) = Continue ?ct ?ca"
    | (expr) r where "isDefaultToken (getTokenType p)"
        "collectExpressionSuggestions K [] (getTokenLength p) = (True, r)"
        "onToken K ct ca p (pre @ rest) = Return (Inr r)"
    by blast
  then show ?case
  proof cases
    case go
    then have "scanTokens K ct ca ((p # pre) @ rest) = scanTokens K ?ct ?ca (pre @ rest)"
      using p by simp
    with Cons.IH [OF pre, of ?ct ?ca] show ?thesis
      by (auto simp: currentTagAfter_Cons)
  next
    case expr
    then have "scanTokens K ct ca ((p # pre) @ rest) = Inr r"
      using p by simp
    with expr show ?thesis by auto
  qed
qed

lemma closureOf_simps:
  "offset (closureOf E d pos n sfdx st) = offsetAt d pos"
  "docText (closureOf E d pos n sfdx st) = getText d"
  "document (closureOf E d pos n sfdx st) = d"
  "engineOf (closureOf E d pos n sfdx st) = E"
  "tagProviders (closureOf E d pos n sfdx st) = enabledProviders E d st"
  "settings (closureOf E d pos n sfdx st) = st"
  "nodeOf (closureOf E d pos n sfdx st) = n"
  "sfdxWorkspace (closureOf E d pos n sfdx st) = sfdx"
  by (simp_all add: closureOf_def)

section \<open>Attribute names\<close>

lemma collectAttributeNameSuggestions_items:
  "\<forall>it \<in> set (collectAttributeNameSuggestions K [] ct nameStart nameEnd).
     \<exists>provider \<in> set (tagProviders K). \<exists>a \<in> set (collectAttributes provider (toLowerCase ct)). \<exists>r v.
       it = attributeNameItem r v a"
  by (auto simp: collectAttributeNameSuggestions_def Let_def)

lemma attributeNameItem_kind:
  "(kind (attributeNameItem r v a) = Kind_Function \<or> kind (attributeNameItem r v a) = Kind_Value) \<and>
   insertTextFormat (attributeNameItem r v a) = Snippet"
  by (cases a) (simp add: attributeNameItem_def)

text \<open>
  C1, as the claim states it, fails. In \<open><a ={b}>\<close> the scanner yields the token \<open>=\<close> of
  type \<open>Unknown\<close> before the attribute name \<open>{b}\<close>. With the cursor before the closing
  brace, strictly inside the attribute name, the loop reaches the \<open>Unknown\<close> token first;
  its \<open>default\<close> branch detects an expression and returns expression references.
\<close>

theorem expression_inside_attribute_name:
  "createScanner exampleEngine ''<a ={b}>'' 0 None = braceTokens \<and>
   getTokenType (braceTokens ! 4) = AttributeName \<and>
   getTokenOffset (braceTokens ! 4) < 6 \<and> 6 < getTokenEnd (braceTokens ! 4) \<and>
   offsetAt (exampleDocument ''<a ={b}>'') \<lparr>line = 0, character = 6\<rparr> = 6 \<and>
   doComplete exampleEngine (exampleDocument ''<a ={b}>'') \<lparr>line = 0, character = 6\<rparr>
     (\<lambda>off. Some (Node (Some ''a'') 0 False None (Some (Node None 0 False None None)))) True None =
   Inr \<lparr>isIncomplete = False,
        items = [\<lparr>label = ''label'', kind = Kind_Reference, detail = None, itemDocumentation = None,
                  filterText = None,
                  textEdit = \<lparr>edit_range = \<lparr>range_start = \<lparr>line = 0, character = 5\<rparr>,
                                            range_end = \<lparr>line = 0, character = 6\<rparr>\<rparr>,
                              newText = ''label''\<rparr>,
                  insertTextFormat = PlainText\<rparr>,
                 \<lparr>label = ''handleClick'', kind = Kind_Reference, detail = None, itemDocumentation = None,
                  filterText = None,
                  textEdit = \<lparr>edit_range = \<lparr>range_start = \<lparr>line = 0, character = 5\<rparr>,
                                            range_end = \<lparr>line = 0, character = 6\<rparr>\<rparr>,
                              newText = ''handleClick''\<rparr>,
                  insertTextFormat = PlainText\<rparr>]\<rparr>"
  by code_simp

text \<open>
  C1, amended. Let the cursor lie strictly inside an \<open>AttributeName\<close> token of the token
  stream scanned from the node's start, the tokens before it lying before it and none of
  them being \<open>EOS\<close>. Then \<open>doComplete\<close> returns one context only: either exactly the
  attribute-name suggestions for the last start tag seen, or, when a token before it is of
  a type outside the nine named cases and the expression detection of the \<open>default\<close>
  branch succeeds on it, exactly the expression references of that detection. If no such
  detection succeeds, the result is the attribute-name suggestions. Each of those is an
  item built from an attribute that an enabled provider lists for the lower-cased tag; no
  tag suggestion and no attribute-value suggestion is among them.
\<close>

theorem attribute_name_context:
  assumes node: "findNodeBefore (offsetAt d pos) = Some n"
    and toks: "createScanner E (getText d) (start n) None = pre @ t # post"
    and attr: "getTokenType t = AttributeName"
    and inside: "getTokenOffset t < offsetAt d pos \<and> offsetAt d pos < getTokenEnd t"
    and before: "\<forall>p \<in> set pre. getTokenType p \<noteq> EOS \<and> getTokenOffset p \<le> getTokenEnd p \<and>
                   getTokenEnd p \<le> getTokenOffset t"
  shows "(doComplete E d pos findNodeBefore sfdx st =
            Inr \<lparr>isIncomplete = False,
                 items = collectAttributeNameSuggestions (closureOf E d pos n sfdx st) []
                           (currentTagAfter [] pre) (getTokenOffset t) (getTokenEnd t)\<rparr> \<or>
          (\<exists>p \<in> set pre. \<exists>r. isDefaultToken (getTokenType p) \<and>
              collectExpressionSuggestions (closureOf E d pos n sfdx st) [] (getTokenLength p) = (True, r) \<and>
              doComplete E d pos findNodeBefore sfdx st = Inr \<lparr>isIncomplete = False, items = r\<rparr>)) \<and>
         ((\<forall>p \<in> set pre. isDefaultToken (getTokenType p) \<longrightarrow>
              \<not> fst (collectExpressionSuggestions (closureOf E d pos n sfdx st) [] (getTokenLength p))) \<longrightarrow>
          doComplete E d pos findNodeBefore sfdx st =
            Inr \<lparr>isIncomplete = False,
                 items = collectAttributeNameSuggestions (closureOf E d pos n sfdx st) []
                           (currentTagAfter [] pre) (getTokenOffset t) (getTokenEnd t)\<rparr>) \<and>
         (\<forall>it \<in> set (collectAttributeNameSuggestions (closureOf E d pos n sfdx st) []
                        (currentTagAfter [] pre) (getTokenOffset t) (getTokenEnd t)).
            (\<exists>provider \<in> set (enabledProviders E d st).
               \<exists>a \<in> set (collectAttributes provider (toLowerCase (currentTagAfter [] pre))).
               \<exists>r v. it = attributeNameItem r v a) \<and>
            (kind it = Kind_Function \<or> kind it = Kind_Value) \<and> insertTextFormat it = Snippet)"
proof -
  let ?K = "closureOf E d pos n sfdx st"
  let ?attrs = "collectAttributeNameSuggestions ?K [] (currentTagAfter [] pre)
                  (getTokenOffset t) (getTokenEnd t)"
  have off: "offset ?K = offsetAt d pos" by (simp add: closureOf_simps)
  have past: "\<forall>p \<in> set pre. getTokenType p \<noteq> EOS \<and> getTokenOffset p \<le> offset ?K \<and>
                getTokenEnd p < offset ?K"
    using before inside by (auto simp: off)
  have here: "scanTokens ?K ct ca (t # post) =
      Inr (collectAttributeNameSuggestions ?K [] ct (getTokenOffset t) (getTokenEnd t))" for ct ca
    using attr inside by (simp add: onToken_def off)
  have run: "doComplete E d pos findNodeBefore sfdx st =
      (case scanTokens ?K [] None (pre @ t # post) of
         Inl e \<Rightarrow> Inl e | Inr its \<Rightarrow> Inr \<lparr>isIncomplete = False, items = its\<rparr>)"
    using node toks by (simp add: doComplete_def)
  have either: "scanTokens ?K [] None (pre @ t # post) = Inr ?attrs \<or>
      (\<exists>p \<in> set pre. \<exists>r. isDefaultToken (getTokenType p) \<and>
          collectExpressionSuggestions ?K [] (getTokenLength p) = (True, r) \<and>
          scanTokens ?K [] None (pre @ t # post) = Inr r)"
    using scanTokens_past [OF past, of "[]" None "t # post"] unfolding here by blast
  then have first: "doComplete E d pos findNodeBefore sfdx st = Inr \<lparr>isIncomplete = False, items = ?attrs\<rparr> \<or>
      (\<exists>p \<in> set pre. \<exists>r. isDefaultToken (getTokenType p) \<and>
          collectExpressionSuggestions ?K [] (getTokenLength p) = (True, r) \<and>
          doComplete E d pos findNodeBefore sfdx st = Inr \<lparr>isIncomplete = False, items = r\<rparr>)"
    unfolding run by (elim disjE bexE exE conjE) (simp, force)
  have second: "(\<forall>p \<in> set pre. isDefaultToken (getTokenType p) \<longrightarrow>
        \<not> fst (collectExpressionSuggestions ?K [] (getTokenLength p))) \<longrightarrow>
      doComplete E d pos findNodeBefore sfdx st = Inr \<lparr>isIncomplete = False, items = ?attrs\<rparr>"
    using first by force
  have third: "\<forall>it \<in> set ?attrs.
      (\<exists>provider \<in> set (enabledProviders E d st).
         \<exists>a \<in> set (collectAttributes provider (toLowerCase (currentTagAfter [] pre))).
         \<exists>r v. it = attributeNameItem r v a) \<and>
      (kind it = Kind_Function \<or> kind it = Kind_Value) \<and> insertTextFormat it = Snippet"
  proof
    fix it assume "it \<in> set ?attrs"
    with collectAttributeNameSuggestions_items [of ?K "currentTagAfter [] pre" "getTokenOffset t" "getTokenEnd t"]
    obtain provider a r v where *: "provider \<in> set (tagProviders ?K)"
      "a \<in> set (collectAttributes provider (toLowerCase (currentTagAfter [] pre)))"
      "it = attributeNameItem r v a"
      by blast
    then show "(\<exists>provider \<in> set (enabledProviders E d st).
         \<exists>a \<in> set (collectAttributes provider (toLowerCase (currentTagAfter [] pre))).
         \<exists>r v. it = attributeNameItem r v a) \<and>
      (kind it = Kind_Function \<or> kind it = Kind_Value) \<and> insertTextFormat it = Snippet"
      using attributeNameItem_kind [of r v a] by (auto simp: closureOf_simps)
  qed
  from first second third show ?thesis by blast
qed

theorem attribute_name_context_witness:
  "fooLaTokens = take 3 fooLaTokens @ (fooLaTokens ! 3) # drop 4 fooLaTokens \<and>
   getTokenType (fooLaTokens ! 3) = AttributeName \<and>
   getTokenOffset (fooLaTokens ! 3) < 8 \<and> 8 < getTokenEnd (fooLaTokens ! 3) \<and>
   doComplete exampleEngine (exampleDocument ''<c-foo la></c-foo>'') \<lparr>line = 0, character = 8\<rparr>
     (\<lambda>off. Some (Node (Some ''c-foo'') 0 True (Some 10) (Some (Node None 0 False None None)))) True None =
   Inr \<lparr>isIncomplete = False,
        items = [\<lparr>label = ''label'', kind = Kind_Value, detail = Some ''LWC custom attribute'',
                  itemDocumentation = None, filterText = None,
                  textEdit = \<lparr>edit_range = \<lparr>range_start = \<lparr>line = 0, character = 7\<rparr>,
                                            range_end = \<lparr>line = 0, character = 9\<rparr>\<rparr>,
                              newText = ''label=$1''\<rparr>,
                  insertTextFormat = Snippet\<rparr>]\<rparr>"
proof -
  let ?d = "exampleDocument ''<c-foo la></c-foo>''"
  let ?pos = "\<lparr>line = 0, character = 8\<rparr>"
  let ?n = "Node (Some ''c-foo'') 0 True (Some 10) (Some (Node None 0 False None None))"
  let ?pre = "take 3 fooLaTokens"
  let ?t = "fooLaTokens ! 3"
  let ?K = "closureOf exampleEngine ?d ?pos ?n True None"
  have off: "offsetAt ?d ?pos = 8" by code_simp
  have split: "fooLaTokens = ?pre @ ?t # drop 4 fooLaTokens" by code_simp
  have node: "(\<lambda>off. Some ?n) (offsetAt ?d ?pos) = Some ?n" by simp
  have toks: "createScanner exampleEngine (getText ?d) (start ?n) None = ?pre @ ?t # drop 4 fooLaTokens"
    by code_simp
  have attr: "getTokenType ?t = AttributeName" by code_simp
  have inside: "getTokenOffset ?t < offsetAt ?d ?pos \<and> offsetAt ?d ?pos < getTokenEnd ?t"
    by code_simp
  have before: "\<forall>p \<in> set ?pre. getTokenType p \<noteq> EOS \<and> getTokenOffset p \<le> getTokenEnd p \<and>
      getTokenEnd p \<le> getTokenOffset ?t"
    by code_simp
  have quiet: "\<forall>p \<in> set ?pre. isDefaultToken (getTokenType p) \<longrightarrow>
      \<not> fst (collectExpressionSuggestions ?K [] (getTokenLength p))"
    by code_simp
  have val: "collectAttributeNameSuggestions ?K [] (currentTagAfter [] ?pre) (getTokenOffset ?t) (getTokenEnd ?t) =
      [\<lparr>label = ''label'', kind = Kind_Value, detail = Some ''LWC custom attribute'',
        itemDocumentation = None, filterText = None,
        textEdit = \<lparr>edit_range = \<lparr>range_start = \<lparr>line = 0, character = 7\<rparr>,
                                  range_end = \<lparr>line = 0, character = 9\<rparr>\<rparr>,
                    newText = ''label=$1''\<rparr>,
        insertTextFormat = Snippet\<rparr>]"
    by code_simp
  from attribute_name_context [OF node toks attr inside before, of True None] quiet
  have "doComplete exampleEngine ?d ?pos (\<lambda>off. Some ?n) True None =
      Inr \<lparr>isIncomplete = False,
           items = collectAttributeNameSuggestions ?K [] (currentTagAfter [] ?pre)
                     (getTokenOffset ?t) (getTokenEnd ?t)\<rparr>"
    by blast
  with val split attr inside off show ?thesis by simp
qed

section \<open>An attribute name right after the tag name\<close>

text \<open>
  C3, as the claim states it, fails: the value placeholder that \<open>collectAttributeNameSuggestions\<close>
  appends is \<open>=$1\<close>, without quotes. For the document \<open><c-foo ></c-foo>\<close>, the cursor after
  the space, and the registered tag \<open>c-foo\<close> with the attribute \<open>label\<close>, the one suggestion
  inserts \<open>label=$1\<close>.
\<close>

theorem placeholder_without_quotes:
  "getLwcByTag exampleRegistry ''c-foo'' \<noteq> None \<and>
   map attr_name (attributes (the (getLwcByTag exampleRegistry ''c-foo''))) = [''label''] \<and>
   doComplete exampleEngine (exampleDocument ''<c-foo ></c-foo>'') \<lparr>line = 0, character = 7\<rparr>
     (\<lambda>off. Some exampleNode) True None =
   Inr \<lparr>isIncomplete = False,
        items = [\<lparr>label = ''label'', kind = Kind_Value, detail = Some ''LWC custom attribute'',
                  itemDocumentation = None, filterText = None,
                  textEdit = \<lparr>edit_range = \<lparr>range_start = \<lparr>line = 0, character = 7\<rparr>,
                                            range_end = \<lparr>line = 0, character = 7\<rparr>\<rparr>,
                              newText = ''label=$1''\<rparr>,
                  insertTextFormat = Snippet\<rparr>]\<rparr> \<and>
   ''label=$1'' \<noteq> ''label='' @ [CHR 0x22] @ ''$1'' @ [CHR 0x22]"
  by code_simp

text \<open>
  C3, amended. In the document \<open><c-foo ></c-foo>\<close> with the cursor at offset 7, right after
  \<open><c-foo \<close>, when the scanner yields the tokens \<open><\<close>, \<open>c-foo\<close> and the whitespace (left in
  state \<open>WithinTag\<close>), no \<open>=\<close> follows the cursor, and an enabled provider lists the attribute
  \<open>label\<close> for the tag \<open>c-foo\<close> (not of the valueless type \<open>v\<close>): \<open>doComplete\<close> returns a list
  with a suggestion labelled \<open>label\<close>, a snippet, whose edit replaces the empty range at
  the cursor with \<open>label=$1\<close>.
\<close>

theorem attribute_after_tag_name:
  assumes doc: "getText d = ''<c-foo ></c-foo>''" and cursor: "offsetAt d pos = 7"
    and node: "findNodeBefore 7 = Some n" and anchor: "start n = 0"
    and toks: "createScanner E ''<c-foo ></c-foo>'' 0 None =
                 mkToken StartTagOpen 0 1 ''<'' AfterOpeningStartTag #
                 mkToken StartTag 1 6 ''c-foo'' WithinTag #
                 mkToken Whitespace 6 7 '' '' WithinTag # post"
    and noAssign: "\<not> isFollowedBy E ''<c-foo ></c-foo>'' 7 AfterAttributeName DelimiterAssign"
    and enabled: "provider \<in> set (enabledProviders E d st)"
    and listed: "(''label'', info, ty) \<in> set (collectAttributes provider ''c-foo'')"
    and valued: "ty \<noteq> Some ''v''"
  shows "\<exists>its. doComplete E d pos findNodeBefore sfdx st = Inr \<lparr>isIncomplete = False, items = its\<rparr> \<and>
           (\<exists>it \<in> set its. label it = ''label'' \<and>
              textEdit it = TextEdit_replace \<lparr>range_start = positionAt d 7, range_end = positionAt d 7\<rparr>
                              ''label=$1'' \<and>
              insertTextFormat it = Snippet)"
proof -
  let ?K = "closureOf E d pos n sfdx st"
  let ?s = "''<c-foo ></c-foo>''"
  let ?r = "\<lparr>range_start = positionAt d 7, range_end = positionAt d 7\<rparr>"
  have off: "offset ?K = 7" and tx: "docText ?K = ?s"
    by (simp_all add: closureOf_simps doc cursor)
  have lower: "toLowerCase ''c-foo'' = ''c-foo''" by code_simp
  have stop: "attributeReplaceEnd ?s 7 7 = 7"
    by (subst attributeReplaceEnd.simps) simp
  have range: "getReplaceRange ?K 7 7 = ?r"
    by (simp add: getReplaceRange_def closureOf_simps cursor)
  have names: "collectAttributeNameSuggestions ?K [] ''c-foo'' 7 7 =
      concat (map (\<lambda>provider. map (attributeNameItem ?r ''=$1'') (collectAttributes provider ''c-foo''))
                (enabledProviders E d st))"
    using noAssign range
    by (simp add: collectAttributeNameSuggestions_def Let_def closureOf_simps doc cursor stop lower)
  have scan: "scanTokens ?K [] None (createScanner E ?s 0 None) =
      Inr (collectAttributeNameSuggestions ?K [] ''c-foo'' 7 7)"
    unfolding toks by (simp add: onToken_def mkToken_def off)
  have result: "doComplete E d pos findNodeBefore sfdx st =
      Inr \<lparr>isIncomplete = False, items = collectAttributeNameSuggestions ?K [] ''c-foo'' 7 7\<rparr>"
    using node anchor scan by (simp add: doComplete_def doc cursor)
  let ?it = "attributeNameItem ?r ''=$1'' (''label'', info, ty)"
  have member: "?it \<in> set (collectAttributeNameSuggestions ?K [] ''c-foo'' 7 7)"
    unfolding names using enabled listed by auto
  have shape: "label ?it = ''label'' \<and> textEdit ?it = TextEdit_replace ?r ''label=$1'' \<and>
      insertTextFormat ?it = Snippet"
    using valued by (simp add: attributeNameItem_def)
  from result member shape show ?thesis by blast
qed

theorem attribute_after_tag_name_witness:
  "\<exists>its. doComplete exampleEngine (exampleDocument ''<c-foo ></c-foo>'') \<lparr>line = 0, character = 7\<rparr>
            (\<lambda>off. Some exampleNode) True None = Inr \<lparr>isIncomplete = False, items = its\<rparr> \<and>
         (\<exists>it \<in> set its. label it = ''label'' \<and>
            textEdit it = \<lparr>edit_range = \<lparr>range_start = \<lparr>line = 0, character = 7\<rparr>,
                                        range_end = \<lparr>line = 0, character = 7\<rparr>\<rparr>,
                          newText = ''label=$1''\<rparr> \<and>
            insertTextFormat it = Snippet)"
proof -
  let ?d = "exampleDocument ''<c-foo ></c-foo>''"
  let ?pos = "\<lparr>line = 0, character = 7\<rparr>"
  let ?p = "lwcTagProvider exampleRegistry"
  let ?info = "\<lparr>info_detail = Some ''LWC custom attribute'', info_documentation = None\<rparr>"
  have doc: "getText ?d = ''<c-foo ></c-foo>''" by code_simp
  have cursor: "offsetAt ?d ?pos = 7" by code_simp
  have node: "(\<lambda>off. Some exampleNode) (7::int) = Some exampleNode" by simp
  have anchor: "start exampleNode = 0" by code_simp
  have toks: "createScanner exampleEngine ''<c-foo ></c-foo>'' 0 None =
      mkToken StartTagOpen 0 1 ''<'' AfterOpeningStartTag #
      mkToken StartTag 1 6 ''c-foo'' WithinTag #
      mkToken Whitespace 6 7 '' '' WithinTag # drop 3 fooTokens"
    by code_simp
  have noAssign: "\<not> isFollowedBy exampleEngine ''<c-foo ></c-foo>'' 7 AfterAttributeName DelimiterAssign"
    by code_simp
  have enabled: "?p \<in> set (enabledProviders exampleEngine ?d None)"
    by (simp add: enabledProviders_def exampleEngine_def lwcTagProvider_def exampleDocument_def
          TextDocument_create_def)
  have listed: "(''label'', ?info, None) \<in> set (collectAttributes ?p ''c-foo'')"
    by code_simp
  have valued: "(None :: string option) \<noteq> Some ''v''" by simp
  have pos7: "positionAt ?d 7 = \<lparr>line = 0, character = 7\<rparr>" by code_simp
  from attribute_after_tag_name [OF doc cursor node anchor toks noAssign enabled listed valued, of True]
  show ?thesis by (simp add: pos7 TextEdit_replace_def)
qed

section \<open>Closing a start tag\<close>

lemma collectAutoCloseTagSuggestion_Nil:
  "collectAutoCloseTagSuggestion K [] e tg =
     (if hideAutoCompleteProposals K \<or> isEmptyElement (engineOf K) tg then []
      else [autoCloseItem K e tg])"
  by (simp add: collectAutoCloseTagSuggestion_def)

text \<open>
  C6, as the claim states it, fails in its second part. In \<open><a ={b}>}\<close> the tag \<open>a\<close> is not
  an empty element and proposals are not hidden; with the cursor right after the \<open>>\<close> that
  closes the start tag, the loop reaches the \<open>Unknown\<close> token \<open>=\<close> first, the expression
  detection of the \<open>default\<close> branch succeeds (the character at the cursor is a closing
  brace and an opening brace lies before it), and \<open>doComplete\<close> returns the expression
  references: no auto-close suggestion is among them.
\<close>

theorem expression_before_auto_close:
  "createScanner exampleEngine ''<a ={b}>}'' 0 None = braceCloseTokens \<and>
   getTokenType (braceCloseTokens ! 5) = StartTagClose \<and>
   getTokenEnd (braceCloseTokens ! 5) = 8 \<and>
   currentTagAfter [] (take 5 braceCloseTokens) = ''a'' \<and>
   \<not> isEmptyElement exampleEngine ''a'' \<and>
   \<not> hideAutoCompleteProposals
       (closureOf exampleEngine (exampleDocument ''<a ={b}>}'') \<lparr>line = 0, character = 8\<rparr>
          (Node (Some ''a'') 0 False None (Some (Node None 0 False None None))) True None) \<and>
   offsetAt (exampleDocument ''<a ={b}>}'') \<lparr>line = 0, character = 8\<rparr> = 8 \<and>
   doComplete exampleEngine (exampleDocument ''<a ={b}>}'') \<lparr>line = 0, character = 8\<rparr>
     (\<lambda>off. Some (Node (Some ''a'') 0 False None (Some (Node None 0 False None None)))) True None =
   Inr \<lparr>isIncomplete = False,
        items = [\<lparr>label = ''label'', kind = Kind_Reference, detail = None, itemDocumentation = None,
                  filterText = None,
                  textEdit = \<lparr>edit_range = \<lparr>range_start = \<lparr>line = 0, character = 5\<rparr>,
                                            range_end = \<lparr>line = 0, character = 8\<rparr>\<rparr>,
                              newText = ''label''\<rparr>,
                  insertTextFormat = PlainText\<rparr>,
                 \<lparr>label = ''handleClick'', kind = Kind_Reference, detail = None, itemDocumentation = None,
                  filterText = None,
                  textEdit = \<lparr>edit_range = \<lparr>range_start = \<lparr>line = 0, character = 5\<rparr>,
                                            range_end = \<lparr>line = 0, character = 8\<rparr>\<rparr>,
                              newText = ''handleClick''\<rparr>,
                  insertTextFormat = PlainText\<rparr>]\<rparr>"
  by code_simp

text \<open>
  C6, amended. Let the cursor lie right after a \<open>StartTagClose\<close> token of the token stream
  scanned from the node's start, the tokens before it lying before it, none of them \<open>EOS\<close>,
  and let \<open>tg\<close> be the name of the start tag it closes. If \<open>tg\<close> is an empty element (or
  auto-close proposals are hidden), no item of the result is a snippet, so there is no
  auto-close suggestion. If \<open>tg\<close> is not an empty element and proposals are not hidden, the
  result is either the single auto-close suggestion or, when a token before the \<open>>\<close> is
  of a type outside the nine named cases and the expression detection of the \<open>default\<close>
  branch succeeds on it, the expression references of that detection; if no such detection
  succeeds, it is the single auto-close suggestion. That suggestion is a snippet whose
  edit has the empty range at the position right after the \<open>>\<close> (an insert, nothing is
  replaced) and whose text is \<open>$0\<close> followed by the end tag of \<open>tg\<close>.
\<close>

theorem auto_close_suggestion:
  assumes node: "findNodeBefore (offsetAt d pos) = Some n"
    and toks: "createScanner E (getText d) (start n) None = pre @ t # post"
    and closing: "getTokenType t = StartTagClose"
    and cursor: "getTokenOffset t < getTokenEnd t \<and> getTokenEnd t = offsetAt d pos"
    and before: "\<forall>p \<in> set pre. getTokenType p \<noteq> EOS \<and> getTokenOffset p \<le> getTokenEnd p \<and>
                   getTokenEnd p \<le> getTokenOffset t"
    and tagname: "currentTagAfter [] pre = tg \<and> tg \<noteq> []"
  shows "(isEmptyElement E tg \<or> hideAutoCompleteProposals (closureOf E d pos n sfdx st) \<longrightarrow>
            (\<exists>its. doComplete E d pos findNodeBefore sfdx st = Inr \<lparr>isIncomplete = False, items = its\<rparr> \<and>
                   (\<forall>it \<in> set its. insertTextFormat it \<noteq> Snippet))) \<and>
         (\<not> isEmptyElement E tg \<and> \<not> hideAutoCompleteProposals (closureOf E d pos n sfdx st) \<and>
          (\<forall>p \<in> set pre. isDefaultToken (getTokenType p) \<longrightarrow>
              \<not> fst (collectExpressionSuggestions (closureOf E d pos n sfdx st) [] (getTokenLength p))) \<longrightarrow>
            doComplete E d pos findNodeBefore sfdx st =
              Inr \<lparr>isIncomplete = False,
                   items = [autoCloseItem (closureOf E d pos n sfdx st) (offsetAt d pos) tg]\<rparr>) \<and>
         textEdit (autoCloseItem (closureOf E d pos n sfdx st) (offsetAt d pos) tg) =
           \<lparr>edit_range = \<lparr>range_start = positionAt d (offsetAt d pos),
                          range_end = positionAt d (offsetAt d pos)\<rparr>,
            newText = ''$0</'' @ tg @ ''>''\<rparr> \<and>
         insertTextFormat (autoCloseItem (closureOf E d pos n sfdx st) (offsetAt d pos) tg) = Snippet \<and>
         (\<not> isEmptyElement E tg \<and> \<not> hideAutoCompleteProposals (closureOf E d pos n sfdx st) \<longrightarrow>
            doComplete E d pos findNodeBefore sfdx st =
              Inr \<lparr>isIncomplete = False,
                   items = [autoCloseItem (closureOf E d pos n sfdx st) (offsetAt d pos) tg]\<rparr> \<or>
            (\<exists>p \<in> set pre. \<exists>r. isDefaultToken (getTokenType p) \<and>
                collectExpressionSuggestions (closureOf E d pos n sfdx st) [] (getTokenLength p) = (True, r) \<and>
                doComplete E d pos findNodeBefore sfdx st = Inr \<lparr>isIncomplete = False, items = r\<rparr>))"
proof -
  let ?K = "closureOf E d pos n sfdx st"
  let ?auto = "collectAutoCloseTagSuggestion ?K [] (offsetAt d pos) tg"
  have off: "offset ?K = offsetAt d pos" by (simp add: closureOf_simps)
  have past: "\<forall>p \<in> set pre. getTokenType p \<noteq> EOS \<and> getTokenOffset p \<le> offset ?K \<and>
                getTokenEnd p < offset ?K"
    using before cursor by (auto simp: off)
  have here: "scanTokens ?K (currentTagAfter [] pre) ca (t # post) = Inr ?auto" for ca
    using closing cursor tagname by (simp add: onToken_def off)
  have run: "doComplete E d pos findNodeBefore sfdx st =
      (case scanTokens ?K [] None (pre @ t # post) of
         Inl e \<Rightarrow> Inl e | Inr its \<Rightarrow> Inr \<lparr>isIncomplete = False, items = its\<rparr>)"
    using node toks by (simp add: doComplete_def)
  have either: "scanTokens ?K [] None (pre @ t # post) = Inr ?auto \<or>
      (\<exists>p \<in> set pre. \<exists>r. isDefaultToken (getTokenType p) \<and>
          collectExpressionSuggestions ?K [] (getTokenLength p) = (True, r) \<and>
          scanTokens ?K [] None (pre @ t # post) = Inr r)"
    using scanTokens_past [OF past, of "[]" None "t # post"] unfolding here by blast
  have voidCase: "isEmptyElement E tg \<or> hideAutoCompleteProposals ?K \<longrightarrow>
      (\<exists>its. doComplete E d pos findNodeBefore sfdx st = Inr \<lparr>isIncomplete = False, items = its\<rparr> \<and>
             (\<forall>it \<in> set its. insertTextFormat it \<noteq> Snippet))"
  proof
    assume "isEmptyElement E tg \<or> hideAutoCompleteProposals ?K"
    then have none: "?auto = []"
      by (auto simp: collectAutoCloseTagSuggestion_Nil closureOf_simps)
    from either show "\<exists>its. doComplete E d pos findNodeBefore sfdx st = Inr \<lparr>isIncomplete = False, items = its\<rparr> \<and>
             (\<forall>it \<in> set its. insertTextFormat it \<noteq> Snippet)"
    proof
      assume "scanTokens ?K [] None (pre @ t # post) = Inr ?auto"
      then show ?thesis by (simp add: run none)
    next
      assume "\<exists>p \<in> set pre. \<exists>r. isDefaultToken (getTokenType p) \<and>
          collectExpressionSuggestions ?K [] (getTokenLength p) = (True, r) \<and>
          scanTokens ?K [] None (pre @ t # post) = Inr r"
      then obtain p r where "p \<in> set pre"
        and r: "collectExpressionSuggestions ?K [] (getTokenLength p) = (True, r)"
        "scanTokens ?K [] None (pre @ t # post) = Inr r"
        by blast
      from collectExpressionSuggestions_true [OF r(1)] r(2) show ?thesis
        by (simp add: run)
    qed
  qed
  have nonvoid: "\<not> isEmptyElement E tg \<and> \<not> hideAutoCompleteProposals ?K \<and>
      (\<forall>p \<in> set pre. isDefaultToken (getTokenType p) \<longrightarrow>
          \<not> fst (collectExpressionSuggestions ?K [] (getTokenLength p))) \<longrightarrow>
      doComplete E d pos findNodeBefore sfdx st =
        Inr \<lparr>isIncomplete = False, items = [autoCloseItem ?K (offsetAt d pos) tg]\<rparr>"
  proof
    assume a: "\<not> isEmptyElement E tg \<and> \<not> hideAutoCompleteProposals ?K \<and>
      (\<forall>p \<in> set pre. isDefaultToken (getTokenType p) \<longrightarrow>
          \<not> fst (collectExpressionSuggestions ?K [] (getTokenLength p)))"
    then have one: "?auto = [autoCloseItem ?K (offsetAt d pos) tg]"
      by (simp add: collectAutoCloseTagSuggestion_Nil closureOf_simps)
    from either a have "scanTokens ?K [] None (pre @ t # post) = Inr ?auto" by force
    then show "doComplete E d pos findNodeBefore sfdx st =
        Inr \<lparr>isIncomplete = False, items = [autoCloseItem ?K (offsetAt d pos) tg]\<rparr>"
      by (simp add: run one)
  qed
  have shape: "textEdit (autoCloseItem ?K (offsetAt d pos) tg) =
           \<lparr>edit_range = \<lparr>range_start = positionAt d (offsetAt d pos),
                          range_end = positionAt d (offsetAt d pos)\<rparr>,
            newText = ''$0</'' @ tg @ ''>''\<rparr> \<and>
         insertTextFormat (autoCloseItem ?K (offsetAt d pos) tg) = Snippet"
    by (simp add: autoCloseItem_def TextEdit_insert_def closureOf_simps)
  have oneContext: "\<not> isEmptyElement E tg \<and> \<not> hideAutoCompleteProposals ?K \<longrightarrow>
      doComplete E d pos findNodeBefore sfdx st =
        Inr \<lparr>isIncomplete = False, items = [autoCloseItem ?K (offsetAt d pos) tg]\<rparr> \<or>
      (\<exists>p \<in> set pre. \<exists>r. isDefaultToken (getTokenType p) \<and>
          collectExpressionSuggestions ?K [] (getTokenLength p) = (True, r) \<and>
          doComplete E d pos findNodeBefore sfdx st = Inr \<lparr>isIncomplete = False, items = r\<rparr>)"
  proof
    assume "\<not> isEmptyElement E tg \<and> \<not> hideAutoCompleteProposals ?K"
    then have one: "?auto = [autoCloseItem ?K (offsetAt d pos) tg]"
      by (simp add: collectAutoCloseTagSuggestion_Nil closureOf_simps)
    from either show "doComplete E d pos findNodeBefore sfdx st =
        Inr \<lparr>isIncomplete = False, items = [autoCloseItem ?K (offsetAt d pos) tg]\<rparr> \<or>
      (\<exists>p \<in> set pre. \<exists>r. isDefaultToken (getTokenType p) \<and>
          collectExpressionSuggestions ?K [] (getTokenLength p) = (True, r) \<and>
          doComplete E d pos findNodeBefore sfdx st = Inr \<lparr>isIncomplete = False, items = r\<rparr>)"
      unfolding run one by (elim disjE bexE exE conjE) (simp, force)
  qed
  from voidCase nonvoid shape oneContext show ?thesis by blast
qed

theorem auto_close_suggestion_witness:
  "isEmptyElement exampleEngine ''br'' \<and>
   doComplete exampleEngine (exampleDocument ''<br>'') \<lparr>line = 0, character = 4\<rparr>
     (\<lambda>off. Some (Node (Some ''br'') 0 True None (Some (Node None 0 False None None)))) True None =
   Inr \<lparr>isIncomplete = False, items = []\<rparr> \<and>
   \<not> isEmptyElement exampleEngine ''c-foo'' \<and>
   doComplete exampleEngine (exampleDocument ''<c-foo ></c-foo>'') \<lparr>line = 0, character = 8\<rparr>
     (\<lambda>off. Some exampleNode) True None =
   Inr \<lparr>isIncomplete = False,
        items = [\<lparr>label = ''</c-foo>'', kind = Kind_Property, detail = None, itemDocumentation = None,
                  filterText = Some ''</c-foo>'',
                  textEdit = \<lparr>edit_range = \<lparr>range_start = \<lparr>line = 0, character = 8\<rparr>,
                                            range_end = \<lparr>line = 0, character = 8\<rparr>\<rparr>,
                              newText = ''$0</c-foo>''\<rparr>,
                  insertTextFormat = Snippet\<rparr>]\<rparr>"
proof -
  let ?root = "Node None 0 False None None"
  let ?br = "Node (Some ''br'') 0 True None (Some ?root)"
  let ?d1 = "exampleDocument ''<br>''" and ?p1 = "\<lparr>line = 0, character = 4\<rparr>"
  let ?d2 = "exampleDocument ''<c-foo ></c-foo>''" and ?p2 = "\<lparr>line = 0, character = 8\<rparr>"
  let ?K2 = "closureOf exampleEngine ?d2 ?p2 exampleNode True None"
  have void: "isEmptyElement exampleEngine ''br''" by code_simp
  have node1: "(\<lambda>off. Some ?br) (offsetAt ?d1 ?p1) = Some ?br" by simp
  have toks1: "createScanner exampleEngine (getText ?d1) (start ?br) None =
      take 2 brTokens @ (brTokens ! 2) # []"
    by code_simp
  have closing1: "getTokenType (brTokens ! 2) = StartTagClose" by code_simp
  have cursor1: "getTokenOffset (brTokens ! 2) < getTokenEnd (brTokens ! 2) \<and>
      getTokenEnd (brTokens ! 2) = offsetAt ?d1 ?p1"
    by code_simp
  have before1: "\<forall>p \<in> set (take 2 brTokens). getTokenType p \<noteq> EOS \<and>
      getTokenOffset p \<le> getTokenEnd p \<and> getTokenEnd p \<le> getTokenOffset (brTokens ! 2)"
    by code_simp
  have name1: "currentTagAfter [] (take 2 brTokens) = ''br'' \<and> ''br'' \<noteq> []" by code_simp
  have value1: "doComplete exampleEngine ?d1 ?p1 (\<lambda>off. Some ?br) True None =
      Inr \<lparr>isIncomplete = False, items = []\<rparr>"
    by code_simp
  from auto_close_suggestion [OF node1 toks1 closing1 cursor1 before1 name1, of True None] void
  have first: "\<exists>its. doComplete exampleEngine ?d1 ?p1 (\<lambda>off. Some ?br) True None =
        Inr \<lparr>isIncomplete = False, items = its\<rparr> \<and>
      (\<forall>it \<in> set its. insertTextFormat it \<noteq> Snippet)"
    by blast
  have nonvoid: "\<not> isEmptyElement exampleEngine ''c-foo''" by code_simp
  have node2: "(\<lambda>off. Some exampleNode) (offsetAt ?d2 ?p2) = Some exampleNode" by simp
  have toks2: "createScanner exampleEngine (getText ?d2) (start exampleNode) None =
      take 3 fooTokens @ (fooTokens ! 3) # drop 4 fooTokens"
    by code_simp
  have closing2: "getTokenType (fooTokens ! 3) = StartTagClose" by code_simp
  have cursor2: "getTokenOffset (fooTokens ! 3) < getTokenEnd (fooTokens ! 3) \<and>
      getTokenEnd (fooTokens ! 3) = offsetAt ?d2 ?p2"
    by code_simp
  have before2: "\<forall>p \<in> set (take 3 fooTokens). getTokenType p \<noteq> EOS \<and>
      getTokenOffset p \<le> getTokenEnd p \<and> getTokenEnd p \<le> getTokenOffset (fooTokens ! 3)"
    by code_simp
  have name2: "currentTagAfter [] (take 3 fooTokens) = ''c-foo'' \<and> ''c-foo'' \<noteq> []" by code_simp
  have shown: "\<not> hideAutoCompleteProposals ?K2" by code_simp
  have quiet: "\<forall>p \<in> set (take 3 fooTokens). isDefaultToken (getTokenType p) \<longrightarrow>
      \<not> fst (collectExpressionSuggestions ?K2 [] (getTokenLength p))"
    by code_simp
  have item: "autoCloseItem ?K2 (offsetAt ?d2 ?p2) ''c-foo'' =
      \<lparr>label = ''</c-foo>'', kind = Kind_Property, detail = None, itemDocumentation = None,
       filterText = Some ''</c-foo>'',
       textEdit = \<lparr>edit_range = \<lparr>range_start = \<lparr>line = 0, character = 8\<rparr>,
                                 range_end = \<lparr>line = 0, character = 8\<rparr>\<rparr>,
                   newText = ''$0</c-foo>''\<rparr>,
       insertTextFormat = Snippet\<rparr>"
    by code_simp
  from auto_close_suggestion [OF node2 toks2 closing2 cursor2 before2 name2, of True None]
    nonvoid shown quiet
  have second: "doComplete exampleEngine ?d2 ?p2 (\<lambda>off. Some exampleNode) True None =
      Inr \<lparr>isIncomplete = False, items = [autoCloseItem ?K2 (offsetAt ?d2 ?p2) ''c-foo'']\<rparr>"
    by blast
  from void value1 first nonvoid second item show ?thesis by simp
qed

section \<open>Closing tags and indentation\<close>

lemma getLineIndentFrom_Some:
  "getLineIndentFrom s off k = Some ind \<Longrightarrow>
   \<exists>j \<le> k. ind = substring s (int j) off \<and>
     (\<forall>i. j \<le> i \<and> i < k \<longrightarrow> isWhiteSpace (charAt s (int i)) \<and> charAt s (int i) \<noteq> []) \<and>
     (j = 0 \<or> charAt s (int j - 1) = [] \<or> charAt s (int j - 1) = [CHR 0x0A] \<or>
      charAt s (int j - 1) = [CHR 0x0D])"
proof (induction k)
  case 0
  then show ?case by simp
next
  case (Suc k)
  let ?ch = "charAt s (int k)"
  show ?case
  proof (cases "?ch = [] \<or> ?ch = [CHR 0x0A] \<or> ?ch = [CHR 0x0D]")
    case True
    with Suc.prems have "ind = substring s (int (Suc k)) off" by (auto simp: Let_def)
    with True show ?thesis by (intro exI [of _ "Suc k"]) auto
  next
    case False
    with Suc.prems have ws: "isWhiteSpace ?ch" and rec: "getLineIndentFrom s off k = Some ind"
      by (auto simp: Let_def split: if_splits)
    from Suc.IH [OF rec] obtain j where j: "j \<le> k" "ind = substring s (int j) off"
      "\<forall>i. j \<le> i \<and> i < k \<longrightarrow> isWhiteSpace (charAt s (int i)) \<and> charAt s (int i) \<noteq> []"
      "j = 0 \<or> charAt s (int j - 1) = [] \<or> charAt s (int j - 1) = [CHR 0x0A] \<or>
       charAt s (int j - 1) = [CHR 0x0D]"
      by blast
    have "\<forall>i. j \<le> i \<and> i < Suc k \<longrightarrow> isWhiteSpace (charAt s (int i)) \<and> charAt s (int i) \<noteq> []"
      using j(3) ws False by (auto simp: less_Suc_eq)
    with j show ?thesis by (intro exI [of _ j]) auto
  qed
qed

text \<open>What \<open>getLineIndent\<close> returns at an offset inside the text: the whitespace between
  the start of the line and the offset.\<close>

lemma getLineIndent_Some:
  assumes ind: "getLineIndent s off = Some ind" and lo: "0 \<le> off" and hi: "off \<le> int (length s)"
  shows "ind = substring s (off - int (length ind)) off \<and> list_all isWhiteSpaceChar ind \<and>
         (off - int (length ind) = 0 \<or>
          charAt s (off - int (length ind) - 1) = [CHR 0x0A] \<or>
          charAt s (off - int (length ind) - 1) = [CHR 0x0D])"
proof -
  from ind have "getLineIndentFrom s off (nat off) = Some ind" by (simp add: getLineIndent_def)
  from getLineIndentFrom_Some [OF this] obtain j where j: "j \<le> nat off"
    "ind = substring s (int j) off"
    "\<forall>i. j \<le> i \<and> i < nat off \<longrightarrow> isWhiteSpace (charAt s (int i)) \<and> charAt s (int i) \<noteq> []"
    "j = 0 \<or> charAt s (int j - 1) = [] \<or> charAt s (int j - 1) = [CHR 0x0A] \<or>
     charAt s (int j - 1) = [CHR 0x0D]"
    by blast
  have jo: "int j \<le> off" using j(1) lo by linarith
  have a: "max 0 (min (int j) (int (length s))) = int j" using jo hi by linarith
  have b: "max 0 (min off (int (length s))) = off" using lo hi by linarith
  have c: "min (int j) off = int j" "max (int j) off = off" using jo by linarith+
  have "substring s (int j) off = take (nat (off - int j)) (drop (nat (int j)) s)"
    by (simp only: substring_def Let_def a b c)
  with j(2) have sub: "ind = take (nat (off - int j)) (drop j s)" by simp
  have "nat (off - int j) \<le> length s - j" using jo hi by linarith
  with sub have len: "length ind = nat (off - int j)" by simp
  then have start: "off - int (length ind) = int j" using jo by simp
  have white: "list_all isWhiteSpaceChar ind"
    unfolding list_all_length
  proof (intro allI impI)
    fix m assume m: "m < length ind"
    have "j \<le> length s" using jo hi by linarith
    with m have nth: "ind ! m = s ! (j + m)" using sub by (simp add: nth_drop)
    from m len jo have range: "j \<le> j + m" "j + m < nat off" by linarith+
    with j(3) have "isWhiteSpace (charAt s (int (j + m)))" by blast
    moreover from range hi have "j + m < length s" by simp
    moreover have "nat (int (j + m)) = j + m" by simp
    ultimately show "isWhiteSpaceChar (ind ! m)"
      using nth by (simp add: charAt_def isWhiteSpace_def del: of_nat_add)
  qed
  have lineStart: "j = 0 \<or> charAt s (int j - 1) = [CHR 0x0A] \<or> charAt s (int j - 1) = [CHR 0x0D]"
  proof (cases "j = 0")
    case True
    then show ?thesis by simp
  next
    case False
    with j(1) hi have "charAt s (int j - 1) \<noteq> []" by (simp add: charAt_def)
    with j(4) False show ?thesis by simp
  qed
  from j(2) white lineStart show ?thesis unfolding start by simp
qed

lemma closeTagItem_plain:
  assumes "getLineIndent (docText K) (start cur) = None \<or>
           getLineIndent (docText K) (aob - 1) = None \<or>
           getLineIndent (docText K) (start cur) = getLineIndent (docText K) (aob - 1)"
  shows "textEdit (closeTagItem K aob tne cur) =
           TextEdit_replace (getReplaceRange K aob tne) (''/'' @ the (tag cur) @ closeTagOf K tne) \<and>
         filterText (closeTagItem K aob tne cur) = Some (''/'' @ the (tag cur) @ closeTagOf K tne)"
  using assms by (auto simp: closeTagItem_def Let_def split: option.splits)

lemma closeTagItem_reindent:
  assumes "getLineIndent (docText K) (start cur) = Some si"
    and "getLineIndent (docText K) (aob - 1) = Some ei" and "si \<noteq> ei"
  shows "textEdit (closeTagItem K aob tne cur) =
           TextEdit_replace (getReplaceRange K (aob - 1 - int (length ei)) (offset K))
             (si @ ''</'' @ the (tag cur) @ closeTagOf K tne) \<and>
         filterText (closeTagItem K aob tne cur) = Some (ei @ ''</'' @ the (tag cur) @ closeTagOf K tne)"
  using assms by (simp add: closeTagItem_def Let_def)

text \<open>
  C7. When \<open>collectCloseTagSuggestions\<close> finds an ancestor to close, it offers one item. If
  the line indentation of the ancestor's start and that of the opening bracket both exist
  (the text before each on its line is whitespace) and differ, the edit replaces from
  \<open>afterOpenBracket - 1\<close> minus the length of the current indentation, that is from the
  start of the current line over its leading whitespace and the bracket, and its text is
  the ancestor's indentation followed by the end tag. In every other case (an
  indentation is missing, or the two are equal) the edit replaces the plain range after
  the bracket with \<open>/tag\<close> and the closing \<open>>\<close>, and the whitespace is left alone. The items
  of the fallback over the providers are plain as well.
\<close>

theorem close_tag_reindent:
  "(\<forall>cur. (case (if inOpenTag then parent (nodeOf K) else Some (nodeOf K)) of
             None \<Rightarrow> None | Some n \<Rightarrow> openAncestor (offset K) n) = Some cur \<longrightarrow>
      collectCloseTagSuggestions K [] aob inOpenTag tne = [closeTagItem K aob tne cur] \<and>
      (\<forall>si ei. getLineIndent (docText K) (start cur) = Some si \<and>
               getLineIndent (docText K) (aob - 1) = Some ei \<and> si \<noteq> ei \<longrightarrow>
         textEdit (closeTagItem K aob tne cur) =
           TextEdit_replace (getReplaceRange K (aob - 1 - int (length ei)) (offset K))
             (si @ ''</'' @ the (tag cur) @ closeTagOf K tne) \<and>
         filterText (closeTagItem K aob tne cur) =
           Some (ei @ ''</'' @ the (tag cur) @ closeTagOf K tne) \<and>
         (0 \<le> aob - 1 \<and> aob - 1 \<le> int (length (docText K)) \<longrightarrow>
            ei = substring (docText K) (aob - 1 - int (length ei)) (aob - 1) \<and>
            list_all isWhiteSpaceChar ei \<and>
            (aob - 1 - int (length ei) = 0 \<or>
             charAt (docText K) (aob - 1 - int (length ei) - 1) = [CHR 0x0A] \<or>
             charAt (docText K) (aob - 1 - int (length ei) - 1) = [CHR 0x0D]))) \<and>
      (getLineIndent (docText K) (start cur) = None \<or>
       getLineIndent (docText K) (aob - 1) = None \<or>
       getLineIndent (docText K) (start cur) = getLineIndent (docText K) (aob - 1) \<longrightarrow>
         textEdit (closeTagItem K aob tne cur) =
           TextEdit_replace (getReplaceRange K aob tne) (''/'' @ the (tag cur) @ closeTagOf K tne) \<and>
         filterText (closeTagItem K aob tne cur) =
           Some (''/'' @ the (tag cur) @ closeTagOf K tne))) \<and>
   ((case (if inOpenTag then parent (nodeOf K) else Some (nodeOf K)) of
       None \<Rightarrow> None | Some n \<Rightarrow> openAncestor (offset K) n) = None \<longrightarrow>
      (\<forall>it \<in> set (collectCloseTagSuggestions K [] aob inOpenTag tne).
         \<exists>ti. it = providerCloseTagItem (getReplaceRange K aob tne) (closeTagOf K tne) ti \<and>
              textEdit it =
                TextEdit_replace (getReplaceRange K aob tne) (''/'' @ fst ti @ closeTagOf K tne)))"
proof -
  let ?search = "case (if inOpenTag then parent (nodeOf K) else Some (nodeOf K)) of
                   None \<Rightarrow> None | Some n \<Rightarrow> openAncestor (offset K) n"
  have found: "collectCloseTagSuggestions K [] aob inOpenTag tne = [closeTagItem K aob tne cur]"
    if "?search = Some cur" for cur
    using that by (simp add: collectCloseTagSuggestions_def Let_def)
  have reindent: "textEdit (closeTagItem K aob tne cur) =
           TextEdit_replace (getReplaceRange K (aob - 1 - int (length ei)) (offset K))
             (si @ ''</'' @ the (tag cur) @ closeTagOf K tne) \<and>
         filterText (closeTagItem K aob tne cur) =
           Some (ei @ ''</'' @ the (tag cur) @ closeTagOf K tne) \<and>
         (0 \<le> aob - 1 \<and> aob - 1 \<le> int (length (docText K)) \<longrightarrow>
            ei = substring (docText K) (aob - 1 - int (length ei)) (aob - 1) \<and>
            list_all isWhiteSpaceChar ei \<and>
            (aob - 1 - int (length ei) = 0 \<or>
             charAt (docText K) (aob - 1 - int (length ei) - 1) = [CHR 0x0A] \<or>
             charAt (docText K) (aob - 1 - int (length ei) - 1) = [CHR 0x0D]))"
    if "getLineIndent (docText K) (start cur) = Some si \<and>
        getLineIndent (docText K) (aob - 1) = Some ei \<and> si \<noteq> ei" for cur si ei
  proof -
    from that have si: "getLineIndent (docText K) (start cur) = Some si"
      and ei: "getLineIndent (docText K) (aob - 1) = Some ei" and ne: "si \<noteq> ei"
      by simp_all
    from closeTagItem_reindent [OF si ei ne] getLineIndent_Some [OF ei]
    show ?thesis by blast
  qed
  have fallback: "\<forall>it \<in> set (collectCloseTagSuggestions K [] aob inOpenTag tne).
         \<exists>ti. it = providerCloseTagItem (getReplaceRange K aob tne) (closeTagOf K tne) ti \<and>
              textEdit it =
                TextEdit_replace (getReplaceRange K aob tne) (''/'' @ fst ti @ closeTagOf K tne)"
    if "?search = None"
    using that by (auto simp: collectCloseTagSuggestions_def Let_def providerCloseTagItem_def)
  from found reindent closeTagItem_plain [of K _ aob tne] fallback show ?thesis
    by (intro conjI allI impI) blast+
qed

theorem close_tag_reindent_witness:
  "collectCloseTagSuggestions
     (closureOf exampleEngine (exampleDocument (''  <div>'' @ [CHR 0x0A] @ ''</''))
        \<lparr>line = 1, character = 2\<rparr> (Node (Some ''div'') 2 False None (Some (Node None 0 False None None)))
        True None)
     [] 9 False 10 =
   [\<lparr>label = ''/div'', kind = Kind_Property, detail = None, itemDocumentation = None,
     filterText = Some ''</div>'',
     textEdit = \<lparr>edit_range = \<lparr>range_start = \<lparr>line = 1, character = 0\<rparr>,
                               range_end = \<lparr>line = 1, character = 2\<rparr>\<rparr>,
                 newText = ''  </div>''\<rparr>,
     insertTextFormat = PlainText\<rparr>] \<and>
   collectCloseTagSuggestions
     (closureOf exampleEngine (exampleDocument (''<div>'' @ [CHR 0x0A] @ ''</''))
        \<lparr>line = 1, character = 2\<rparr> (Node (Some ''div'') 0 False None (Some (Node None 0 False None None)))
        True None)
     [] 7 False 8 =
   [\<lparr>label = ''/div'', kind = Kind_Property, detail = None, itemDocumentation = None,
     filterText = Some ''/div>'',
     textEdit = \<lparr>edit_range = \<lparr>range_start = \<lparr>line = 1, character = 1\<rparr>,
                               range_end = \<lparr>line = 1, character = 2\<rparr>\<rparr>,
                 newText = ''/div>''\<rparr>,
     insertTextFormat = PlainText\<rparr>]"
proof -
  let ?root = "Node None 0 False None None"
  let ?n1 = "Node (Some ''div'') 2 False None (Some ?root)"
  let ?n2 = "Node (Some ''div'') 0 False None (Some ?root)"
  let ?K1 = "closureOf exampleEngine (exampleDocument (''  <div>'' @ [CHR 0x0A] @ ''</''))
               \<lparr>line = 1, character = 2\<rparr> ?n1 True None"
  let ?K2 = "closureOf exampleEngine (exampleDocument (''<div>'' @ [CHR 0x0A] @ ''</''))
               \<lparr>line = 1, character = 2\<rparr> ?n2 True None"
  have search1: "(case (if False then parent (nodeOf ?K1) else Some (nodeOf ?K1)) of
                    None \<Rightarrow> None | Some n \<Rightarrow> openAncestor (offset ?K1) n) = Some ?n1"
    by code_simp
  have indents1: "getLineIndent (docText ?K1) (start ?n1) = Some ''  '' \<and>
      getLineIndent (docText ?K1) (9 - 1) = Some [] \<and> ''  '' \<noteq> []"
    by code_simp
  from close_tag_reindent [where inOpenTag = False and K = ?K1 and aob = 9 and tne = 10] search1 indents1
  have one: "collectCloseTagSuggestions ?K1 [] 9 False 10 = [closeTagItem ?K1 9 10 ?n1]"
    and edit1: "textEdit (closeTagItem ?K1 9 10 ?n1) =
      TextEdit_replace (getReplaceRange ?K1 (9 - 1 - int (length ([] :: string))) (offset ?K1))
        (''  '' @ ''</'' @ the (tag ?n1) @ closeTagOf ?K1 10)"
    by blast+
  have value1: "closeTagItem ?K1 9 10 ?n1 =
      \<lparr>label = ''/div'', kind = Kind_Property, detail = None, itemDocumentation = None,
       filterText = Some ''</div>'',
       textEdit = \<lparr>edit_range = \<lparr>range_start = \<lparr>line = 1, character = 0\<rparr>,
                                 range_end = \<lparr>line = 1, character = 2\<rparr>\<rparr>,
                   newText = ''  </div>''\<rparr>,
       insertTextFormat = PlainText\<rparr>"
    by code_simp
  have search2: "(case (if False then parent (nodeOf ?K2) else Some (nodeOf ?K2)) of
                    None \<Rightarrow> None | Some n \<Rightarrow> openAncestor (offset ?K2) n) = Some ?n2"
    by code_simp
  have indents2: "getLineIndent (docText ?K2) (start ?n2) = getLineIndent (docText ?K2) (7 - 1)"
    by code_simp
  from close_tag_reindent [where inOpenTag = False and K = ?K2 and aob = 7 and tne = 8] search2 indents2
  have two: "collectCloseTagSuggestions ?K2 [] 7 False 8 = [closeTagItem ?K2 7 8 ?n2]"
    and edit2: "textEdit (closeTagItem ?K2 7 8 ?n2) =
      TextEdit_replace (getReplaceRange ?K2 7 8) (''/'' @ the (tag ?n2) @ closeTagOf ?K2 8)"
    by blast+
  have value2: "closeTagItem ?K2 7 8 ?n2 =
      \<lparr>label = ''/div'', kind = Kind_Property, detail = None, itemDocumentation = None,
       filterText = Some ''/div>'',
       textEdit = \<lparr>edit_range = \<lparr>range_start = \<lparr>line = 1, character = 1\<rparr>,
                                 range_end = \<lparr>line = 1, character = 2\<rparr>\<rparr>,
                   newText = ''/div>''\<rparr>,
       insertTextFormat = PlainText\<rparr>"
    by code_simp
  from one value1 two value2 show ?thesis by simp
qed


end
